theory Spec2Isabelle
  imports Main "HOL-Library.AList"
begin

section \<open>JavaScript values\<close>

text \<open>
  The backend (\<^verbatim>\<open>backend/server.js\<close>) works on JSON request bodies with the dynamic
  operators of JavaScript: property reads, optional chaining, \<^verbatim>\<open>||\<close> and \<^verbatim>\<open>typeof\<close>.
  A value is \<^verbatim>\<open>undefined\<close>, \<^verbatim>\<open>null\<close>, a boolean, a number, a string, an array or an
  object. Numbers are the integers of magnitude below \<^verbatim>\<open>2^53\<close>, which a JSON text gives
  exactly and \<^verbatim>\<open>JSON.stringify\<close> writes digit by digit; fractions and larger numbers are
  left out, and so are strings with characters beyond the 256 of \<^typ>\<open>char\<close>. An object is
  the list of its own properties in enumeration order, the first entry of a name being
  the property.
\<close>

datatype jsval =
    JUndef
  | JNull
  | JBool bool
  | JNum int
  | JStr string
  | JArr "jsval list"
  | JObj "(string \<times> jsval) list"

text \<open>\<^verbatim>\<open>!!v\<close>: every value is truthy except \<^verbatim>\<open>undefined\<close>, \<^verbatim>\<open>null\<close>, \<^verbatim>\<open>false\<close>,
  \<^verbatim>\<open>0\<close> and the empty string.\<close>

fun truthy :: "jsval \<Rightarrow> bool" where
  "truthy JUndef = False"
| "truthy JNull = False"
| "truthy (JBool b) = b"
| "truthy (JNum n) = (n \<noteq> 0)"
| "truthy (JStr s) = (s \<noteq> [])"
| "truthy (JArr xs) = True"
| "truthy (JObj kvs) = True"

text \<open>\<^verbatim>\<open>v === null || v === undefined\<close>.\<close>

fun nullish :: "jsval \<Rightarrow> bool" where
  "nullish JUndef = True"
| "nullish JNull = True"
| "nullish v = False"

text \<open>\<^verbatim>\<open>typeof v === 'object'\<close>: true of objects, of arrays and of \<^verbatim>\<open>null\<close>.\<close>

fun typeof_object :: "jsval \<Rightarrow> bool" where
  "typeof_object JNull = True"
| "typeof_object (JArr xs) = True"
| "typeof_object (JObj kvs) = True"
| "typeof_object v = False"

text \<open>\<^verbatim>\<open>typeof v === 'string'\<close>.\<close>

fun typeof_string :: "jsval \<Rightarrow> bool" where
  "typeof_string (JStr s) = True"
| "typeof_string v = False"

text \<open>\<^verbatim>\<open>Array.isArray(v)\<close>.\<close>

fun isArray :: "jsval \<Rightarrow> bool" where
  "isArray (JArr xs) = True"
| "isArray v = False"

text \<open>
  \<^verbatim>\<open>v?.k\<close> for a field name \<open>k\<close>: the property of an object, \<^verbatim>\<open>undefined\<close> when the
  object has none and when \<open>v\<close> is \<^verbatim>\<open>null\<close> or \<^verbatim>\<open>undefined\<close>. The names the server reads
  (\<^verbatim>\<open>choices\<close>, \<^verbatim>\<open>response\<close>, \<^verbatim>\<open>message\<close>, \<^verbatim>\<open>content\<close>, \<^verbatim>\<open>data\<close>, \<^verbatim>\<open>usage\<close>, \<^verbatim>\<open>meta\<close> and
  the fields of the request bodies) are no members of arrays, strings, numbers or
  booleans, so the read gives \<^verbatim>\<open>undefined\<close> on those. A plain \<^verbatim>\<open>v.k\<close> differs only on
  \<^verbatim>\<open>null\<close> and \<^verbatim>\<open>undefined\<close>, where it throws: the handlers below test for that first
  wherever the source reads without a guard.
\<close>

fun field :: "jsval \<Rightarrow> string \<Rightarrow> jsval" where
  "field (JObj kvs) k = (case map_of kvs k of None \<Rightarrow> JUndef | Some v \<Rightarrow> v)"
| "field v k = JUndef"

text \<open>\<^verbatim>\<open>v?.[0]\<close>: the first element of an array, the first character of a string, the
  property named \<^verbatim>\<open>0\<close> of an object.\<close>

fun index0 :: "jsval \<Rightarrow> jsval" where
  "index0 (JArr []) = JUndef"
| "index0 (JArr (x # xs)) = x"
| "index0 (JStr []) = JUndef"
| "index0 (JStr (c # cs)) = JStr [c]"
| "index0 (JObj kvs) = (case map_of kvs ''0'' of None \<Rightarrow> JUndef | Some v \<Rightarrow> v)"
| "index0 v = JUndef"

text \<open>\<^verbatim>\<open>a || b\<close>.\<close>

definition jor :: "jsval \<Rightarrow> jsval \<Rightarrow> jsval" where
  "jor a b = (if truthy a then a else b)"

text \<open>The own enumerable properties copied by an object spread \<^verbatim>\<open>{...v}\<close>.\<close>

fun entries :: "jsval \<Rightarrow> (string \<times> jsval) list" where
  "entries (JObj kvs) = kvs"
| "entries v = []"

subsection \<open>\<^verbatim>\<open>JSON.stringify\<close>\<close>

definition digit_char :: "nat \<Rightarrow> char" where
  "digit_char d = char_of (of_char (CHR ''0'') + d)"

fun show_nat :: "nat \<Rightarrow> string" where
  "show_nat n = (if n < 10 then [digit_char n] else show_nat (n div 10) @ [digit_char (n mod 10)])"

declare show_nat.simps [simp del]

definition show_int :: "int \<Rightarrow> string" where
  "show_int i = (if i < 0 then CHR ''-'' # show_nat (nat (- i)) else show_nat (nat i))"

definition hex_char :: "nat \<Rightarrow> char" where
  "hex_char d = (if d < 10 then digit_char d else char_of (of_char (CHR ''a'') + (d - 10)))"

text \<open>The escapes of \<^verbatim>\<open>QuoteJSONString\<close>: the double quote (0x22), the backslash (0x5C)
  and the control characters.\<close>

definition escape_char :: "char \<Rightarrow> string" where
  "escape_char c =
     (if c = CHR 0x22 then [CHR 0x5C, CHR 0x22]
      else if c = CHR 0x5C then [CHR 0x5C, CHR 0x5C]
      else if c = CHR 0x08 then [CHR 0x5C, CHR ''b'']
      else if c = CHR 0x09 then [CHR 0x5C, CHR ''t'']
      else if c = CHR 0x0A then [CHR 0x5C, CHR ''n'']
      else if c = CHR 0x0C then [CHR 0x5C, CHR ''f'']
      else if c = CHR 0x0D then [CHR 0x5C, CHR ''r'']
      else if (of_char c :: nat) < 32
        then [CHR 0x5C, CHR ''u'', CHR ''0'', CHR ''0'',
              hex_char (of_char c div 16), hex_char (of_char c mod 16)]
      else [c])"

definition quote :: "string \<Rightarrow> string" where
  "quote s = CHR 0x22 # concat (map escape_char s) @ [CHR 0x22]"

fun join :: "string list \<Rightarrow> string" where
  "join [] = []"
| "join [x] = x"
| "join (x # y # ys) = x @ CHR '','' # join (y # ys)"

text \<open>
  \<^verbatim>\<open>JSON.stringify(v)\<close> gives \<^verbatim>\<open>undefined\<close> (here \<open>None\<close>) for \<^verbatim>\<open>undefined\<close> and a text
  otherwise; inside an array \<^verbatim>\<open>undefined\<close> is written \<^verbatim>\<open>null\<close>, inside an object the
  property is left out.
\<close>

fun JSON_stringify :: "jsval \<Rightarrow> string option" where
  "JSON_stringify JUndef = None"
| "JSON_stringify JNull = Some ''null''"
| "JSON_stringify (JBool b) = Some (if b then ''true'' else ''false'')"
| "JSON_stringify (JNum n) = Some (show_int n)"
| "JSON_stringify (JStr s) = Some (quote s)"
| "JSON_stringify (JArr xs) =
     Some (''['' @ join (map (\<lambda>x. case JSON_stringify x of None \<Rightarrow> ''null'' | Some t \<Rightarrow> t) xs) @ '']'')"
| "JSON_stringify (JObj kvs) =
     Some (''{'' @ join (concat (map (\<lambda>kv. case JSON_stringify (snd kv) of
                                            None \<Rightarrow> []
                                          | Some t \<Rightarrow> [quote (fst kv) @ '':'' @ t]) kvs)) @ ''}'')"

text \<open>The value of the expression \<^verbatim>\<open>JSON.stringify(v)\<close>.\<close>

definition stringify :: "jsval \<Rightarrow> jsval" where
  "stringify v = (case JSON_stringify v of None \<Rightarrow> JUndef | Some t \<Rightarrow> JStr t)"


section \<open>Exceptions and HTTP calls\<close>

text \<open>
  What a \<^verbatim>\<open>catch\<close> clause of the server can receive: the errors the language throws
  (a call of something that is no function, a destructuring of \<^verbatim>\<open>undefined\<close>, a read of
  an undeclared variable), the \<^verbatim>\<open>Error\<close> the webhook handler throws itself, and the
  rejection of \<^verbatim>\<open>axios.post\<close>, which carries the response when there was one.
\<close>

datatype js_error =
    TypeError string
  | ReferenceError string
  | Error string
  | AxiosError string "(nat \<times> jsval) option"

text \<open>\<^verbatim>\<open>error.message\<close>.\<close>

fun error_message :: "js_error \<Rightarrow> string" where
  "error_message (TypeError m) = m"
| "error_message (ReferenceError m) = m"
| "error_message (Error m) = m"
| "error_message (AxiosError m r) = m"

text \<open>\<^verbatim>\<open>error.response\<close>: status and body of the response, when the error has one.\<close>

fun error_response :: "js_error \<Rightarrow> (nat \<times> jsval) option" where
  "error_response (AxiosError m r) = r"
| "error_response e = None"

text \<open>\<^verbatim>\<open>error.response?.data\<close>.\<close>

definition error_response_data :: "js_error \<Rightarrow> jsval" where
  "error_response_data e = (case error_response e of None \<Rightarrow> JUndef | Some (s, d) \<Rightarrow> d)"

text \<open>
  What the network does with a POST: the peer answers with a status and a body, or
  there is no answer (connection failure, timeout, a request that could not be
  sent), with the message of the failure.
\<close>

datatype http_outcome =
    Responded nat jsval
  | Failed string

text \<open>
  \<^verbatim>\<open>await axios.post(url, payload, config)\<close>: resolves with the response when
  \<^verbatim>\<open>validateStatus\<close> accepts its status and rejects otherwise.
\<close>

fun axios_post :: "(nat \<Rightarrow> bool) \<Rightarrow> http_outcome \<Rightarrow> js_error + nat \<times> jsval" where
  "axios_post validateStatus (Responded s d) =
     (if validateStatus s then Inr (s, d)
      else Inl (AxiosError (''Request failed with status code '' @ show_nat s) (Some (s, d))))"
| "axios_post validateStatus (Failed m) = Inl (AxiosError m None)"

text \<open>The \<^verbatim>\<open>validateStatus\<close> of axios when the caller gives none.\<close>

definition default_validateStatus :: "nat \<Rightarrow> bool" where
  "default_validateStatus s = (200 \<le> s \<and> s < 300)"

text \<open>An outgoing POST: address, body and configuration.\<close>

record outbound =
  url :: string
  payload :: jsval
  headers :: "(string \<times> string) list"
  timeout :: "nat option"

text \<open>An incoming request: the parsed body and the headers, and the answer to it.\<close>

record request =
  req_body :: jsval
  req_headers :: "(string \<times> string) list"

record http_response =
  status :: nat
  body :: jsval

section \<open>Configuration and storage\<close>

text \<open>The settings read from the environment when the server starts; the API key is
  absent when the variable is not set.\<close>

record config =
  MODELRIVER_API_URL :: string
  MODELRIVER_API_KEY :: "string option"
  BACKEND_PUBLIC_URL :: string

text \<open>\<^verbatim>\<open>!!MODELRIVER_API_KEY\<close>.\<close>

definition api_key_set :: "config \<Rightarrow> bool" where
  "api_key_set cfg = (case MODELRIVER_API_KEY cfg of None \<Rightarrow> False | Some k \<Rightarrow> k \<noteq> [])"

text \<open>The template \<^verbatim>\<open>`Bearer ${MODELRIVER_API_KEY}`\<close>.\<close>

definition bearer :: "config \<Rightarrow> string" where
  "bearer cfg = ''Bearer '' @ (case MODELRIVER_API_KEY cfg of None \<Rightarrow> ''undefined'' | Some k \<Rightarrow> k)"

text \<open>
  A JavaScript \<^verbatim>\<open>Map\<close> with values as keys: the entries in insertion order. Keys are
  compared by \<^verbatim>\<open>SameValueZero\<close>: numbers, strings, booleans, \<^verbatim>\<open>null\<close> and \<^verbatim>\<open>undefined\<close> by
  value, objects and arrays by identity. Every key the server looks up comes out of a
  request body parsed for that request or is a key it has stored at most once before,
  so an object or an array never finds an entry.
\<close>

type_synonym 'v js_map = "(jsval \<times> 'v) list"

definition same_key :: "jsval \<Rightarrow> jsval \<Rightarrow> bool" where
  "same_key k' k = (k' = k \<and> \<not> isArray k \<and> (case k of JObj kvs \<Rightarrow> False | _ \<Rightarrow> True))"

fun Map_get :: "'v js_map \<Rightarrow> jsval \<Rightarrow> 'v option" where
  "Map_get [] k = None"
| "Map_get ((k', v) # m) k = (if same_key k' k then Some v else Map_get m k)"

definition Map_has :: "'v js_map \<Rightarrow> jsval \<Rightarrow> bool" where
  "Map_has m k = (Map_get m k \<noteq> None)"

fun Map_replace :: "'v js_map \<Rightarrow> jsval \<Rightarrow> 'v \<Rightarrow> 'v js_map" where
  "Map_replace [] k v = []"
| "Map_replace ((k', v') # m) k v =
     (if same_key k' k then (k', v) # m else (k', v') # Map_replace m k v)"

definition Map_set :: "'v js_map \<Rightarrow> jsval \<Rightarrow> 'v \<Rightarrow> 'v js_map" where
  "Map_set m k v = (if Map_has m k then Map_replace m k v else m @ [(k, v)])"

definition Map_delete :: "'v js_map \<Rightarrow> jsval \<Rightarrow> 'v js_map" where
  "Map_delete m k = filter (\<lambda>kv. \<not> same_key (fst kv) k) m"

text \<open>The entry of \<^verbatim>\<open>pendingRequests\<close> written by \<^verbatim>\<open>POST /chat\<close>.\<close>

record pending =
  prompt :: jsval
  timestamp :: int
  conversationId :: jsval
  messageId :: jsval

text \<open>The \<^verbatim>\<open>record\<close> object built by the webhook handler; the times are the texts
  \<^verbatim>\<open>toISOString\<close> gives.\<close>

record response_record =
  r_id :: jsval
  r_prompt :: jsval
  r_response :: jsval
  r_created_at :: string
  r_channel_id :: jsval
  r_conversation_id :: jsval
  r_usage :: jsval

record conversation =
  messages :: "response_record list"
  createdAt :: string

text \<open>The two module-level maps of the server.\<close>

record state =
  conversations :: "conversation js_map"
  pendingRequests :: "pending js_map"


section \<open>\<^verbatim>\<open>POST /chat\<close>\<close>

text \<open>
  The handlers are functions of the configuration, of what they take from outside
  while they run, of the two maps and of the request; they give the answer, the maps
  afterwards and the POSTs made. What they print on the console is left out: a log
  statement is part of a handler below only where evaluating it can throw.

  What \<^verbatim>\<open>POST /chat\<close> takes from outside while it runs: the identifiers \<^verbatim>\<open>uuidv4()\<close>
  returns, the readings of \<^verbatim>\<open>Date.now()\<close>, and what the network does with the call to
  the provider.
\<close>

record chat_env =
  uuid_conversation :: string
  uuid_message :: string
  metadata_now :: int
  pending_now :: int
  provider_outcome :: http_outcome

text \<open>The error of a destructuring \<^verbatim>\<open>const { p, ... } = e\<close> when \<open>e\<close> is \<^verbatim>\<open>null\<close> or
  \<^verbatim>\<open>undefined\<close>.\<close>

definition destructure_error :: "string \<Rightarrow> string \<Rightarrow> jsval \<Rightarrow> js_error" where
  "destructure_error p e v =
     TypeError (''Cannot destructure property '' @ [CHR 0x27] @ p @ [CHR 0x27] @ '' of '' @
                [CHR 0x27] @ e @ [CHR 0x27] @ '' as it is '' @
                (if v = JNull then ''null'' else ''undefined'') @ ''.'')"

text \<open>The body sent to the provider (\<^verbatim>\<open>payload\<close>).\<close>

definition chat_payload :: "config \<Rightarrow> chat_env \<Rightarrow> jsval \<Rightarrow> jsval \<Rightarrow> jsval \<Rightarrow> jsval" where
  "chat_payload cfg env b customConversationId customMessageId =
     JObj [(''workflow'', jor (field b ''workflow'') (JStr ''mr_chatbot_workflow'')),
           (''messages'', JArr [JObj [(''role'', JStr ''user''), (''content'', field b ''message'')]]),
           (''delivery_method'', JStr ''websocket''),
           (''webhook_url'', JStr (BACKEND_PUBLIC_URL cfg @ ''/webhook/modelriver'')),
           (''events'', jor (field b ''events'') (JArr [JStr ''webhook_received''])),
           (''metadata'', JObj [(''conversation_id'', customConversationId),
                                (''message_id'', customMessageId),
                                (''original_prompt'', field b ''message''),
                                (''timestamp'', JNum (metadata_now env))])]"

definition chat_request :: "config \<Rightarrow> jsval \<Rightarrow> outbound" where
  "chat_request cfg p =
     \<lparr>url = MODELRIVER_API_URL cfg @ ''/v1/ai/async'',
      payload = p,
      headers = [(''Authorization'', bearer cfg), (''Content-Type'', ''application/json'')],
      timeout = None\<rparr>"

text \<open>The \<^verbatim>\<open>catch\<close> clause of the handler.\<close>

definition chat_catch :: "js_error \<Rightarrow> http_response" where
  "chat_catch err =
     \<lparr>status = 500,
      body = JObj [(''error'', jor (field (error_response_data err) ''message'')
                                   (JStr (error_message err))),
                   (''details'', error_response_data err)]\<rparr>"

text \<open>
  The handler gives the answer, the maps afterwards and the POSTs it has made. An
  answer sent with \<^verbatim>\<open>res.json\<close> alone has status 200.
\<close>

definition chat :: "config \<Rightarrow> chat_env \<Rightarrow> state \<Rightarrow> request \<Rightarrow> http_response \<times> state \<times> outbound list" where
  "chat cfg env st req =
     (let b = req_body req in
      if nullish b then (chat_catch (destructure_error ''message'' ''req.body'' b), st, [])
      else if \<not> truthy (field b ''message'') then
        (\<lparr>status = 400, body = JObj [(''error'', JStr ''Message is required'')]\<rparr>, st, [])
      else if \<not> api_key_set cfg then
        (\<lparr>status = 500,
          body = JObj [(''error'',
            JStr ''MODELRIVER_API_KEY not configured. Set it in environment variables.'')]\<rparr>, st, [])
      else
        let customConversationId = jor (field b ''conversationId'') (JStr (uuid_conversation env));
            customMessageId = JStr (uuid_message env);
            call = chat_request cfg (chat_payload cfg env b customConversationId customMessageId)
        in case axios_post default_validateStatus (provider_outcome env) of
             Inl err \<Rightarrow> (chat_catch err, st, [call])
           | Inr (s, d) \<Rightarrow>
               if nullish d then (chat_catch (destructure_error ''channel_id'' ''response.data'' d), st, [call])
               else
                 (\<lparr>status = 200,
                   body = JObj [(''channel_id'', field d ''channel_id''),
                                (''ws_token'', field d ''ws_token''),
                                (''websocket_url'', field d ''websocket_url''),
                                (''websocket_channel'', field d ''websocket_channel''),
                                (''project_id'', field d ''project_id'')]\<rparr>,
                  st\<lparr>pendingRequests :=
                       Map_set (pendingRequests st) (field d ''channel_id'')
                         \<lparr>prompt = field b ''message'',
                          timestamp = pending_now env,
                          conversationId = customConversationId,
                          messageId = customMessageId\<rparr>\<rparr>,
                  [call]))"

section \<open>\<^verbatim>\<open>POST /webhook/modelriver\<close>\<close>

text \<open>From outside: the identifier of \<^verbatim>\<open>uuidv4()\<close>, the readings of the clock as
  \<^verbatim>\<open>toISOString\<close> prints them, and what the network does with the callback.\<close>

record webhook_env =
  uuid :: string
  created_at_now :: string
  conversation_now :: string
  processed_at_now :: string
  callback_outcome :: http_outcome

text \<open>The fields the handler takes out of the body in its first statement.\<close>

record envelope =
  wh_channel_id :: jsval
  wh_status :: jsval
  wh_data :: jsval
  wh_meta :: jsval
  wh_callback_url :: jsval
  wh_type :: jsval
  wh_event :: jsval
  wh_ai_response :: jsval

definition destructure_body :: "jsval \<Rightarrow> js_error + envelope" where
  "destructure_body b =
     (if nullish b then Inl (destructure_error ''channel_id'' ''req.body'' b)
      else Inr \<lparr>wh_channel_id = field b ''channel_id'',
                wh_status = field b ''status'',
                wh_data = field b ''data'',
                wh_meta = field b ''meta'',
                wh_callback_url = field b ''callback_url'',
                wh_type = field b ''type'',
                wh_event = field b ''event'',
                wh_ai_response = field b ''ai_response''\<rparr>)"

text \<open>\<^verbatim>\<open>callback_url || req.headers['x-modelriver-callback-url']\<close>; header names are in
  lower case.\<close>

definition callbackUrl_of :: "envelope \<Rightarrow> (string \<times> string) list \<Rightarrow> jsval" where
  "callbackUrl_of e hs =
     jor (wh_callback_url e)
         (case map_of hs ''x-modelriver-callback-url'' of
            None \<Rightarrow> JUndef | Some h \<Rightarrow> JStr h)"

text \<open>\<^verbatim>\<open>ai_response?.data || data\<close>, and \<^verbatim>\<open>responseData || data\<close>.\<close>

definition responseData_of :: "envelope \<Rightarrow> jsval" where
  "responseData_of e = jor (field (wh_ai_response e) ''data'') (wh_data e)"

definition responseDataToProcess_of :: "envelope \<Rightarrow> jsval" where
  "responseDataToProcess_of e = jor (responseData_of e) (wh_data e)"

text \<open>The value of \<^verbatim>\<open>aiResponse\<close> after the \<^verbatim>\<open>if\<close> that tells structured from
  unstructured output.\<close>

definition aiResponse_of :: "jsval \<Rightarrow> jsval" where
  "aiResponse_of rdp =
     (if truthy rdp \<and> typeof_object rdp \<and> \<not> truthy (field rdp ''choices'')
         \<and> \<not> truthy (field rdp ''response'')
      then rdp
      else jor (jor (field (field (index0 (field rdp ''choices'')) ''message'') ''content'')
                    (field (field (index0 (field (field rdp ''response'') ''choices''))
                              ''message'') ''content''))
               (stringify rdp))"

text \<open>\<^verbatim>\<open>pendingRequests.get(channel_id) || {}\<close> and the three fields taken from it.\<close>

definition pendingRequest_of :: "state \<Rightarrow> envelope \<Rightarrow> pending option" where
  "pendingRequest_of st e = Map_get (pendingRequests st) (wh_channel_id e)"

definition prompt_of :: "state \<Rightarrow> envelope \<Rightarrow> jsval" where
  "prompt_of st e = (case pendingRequest_of st e of None \<Rightarrow> JUndef | Some p \<Rightarrow> prompt p)"

definition conversationId_of :: "state \<Rightarrow> envelope \<Rightarrow> jsval" where
  "conversationId_of st e =
     (case pendingRequest_of st e of None \<Rightarrow> JUndef | Some p \<Rightarrow> conversationId p)"

definition customMessageId_of :: "state \<Rightarrow> envelope \<Rightarrow> jsval" where
  "customMessageId_of st e =
     (case pendingRequest_of st e of None \<Rightarrow> JUndef | Some p \<Rightarrow> messageId p)"

text \<open>\<^verbatim>\<open>customMessageId || uuidv4()\<close>.\<close>

definition messageId_of :: "webhook_env \<Rightarrow> state \<Rightarrow> envelope \<Rightarrow> jsval" where
  "messageId_of env st e = jor (customMessageId_of st e) (JStr (uuid env))"

definition record_of :: "webhook_env \<Rightarrow> state \<Rightarrow> envelope \<Rightarrow> response_record" where
  "record_of env st e =
     \<lparr>r_id = messageId_of env st e,
      r_prompt = jor (prompt_of st e) (JStr ''Unknown prompt''),
      r_response = aiResponse_of (responseDataToProcess_of e),
      r_created_at = created_at_now env,
      r_channel_id = wh_channel_id e,
      r_conversation_id = conversationId_of st e,
      r_usage = jor (field (wh_meta e) ''usage'') (field (wh_data e) ''usage'')\<rparr>"

text \<open>
  The handler logs the record with \<^verbatim>\<open>record.prompt?.substring(0, 50)\<close> and
  \<^verbatim>\<open>record.response?.substring(0, 50)\<close>. The optional chain stops on \<^verbatim>\<open>null\<close> and
  \<^verbatim>\<open>undefined\<close> only: on any other value that is no string, \<^verbatim>\<open>substring\<close> is
  \<^verbatim>\<open>undefined\<close> and the call throws.
\<close>

definition substring_call :: "string \<Rightarrow> jsval \<Rightarrow> js_error option" where
  "substring_call expr v =
     (if nullish v \<or> typeof_string v then None
      else Some (TypeError (expr @ ''?.substring is not a function'')))"

definition log_record :: "response_record \<Rightarrow> js_error option" where
  "log_record r =
     (case substring_call ''record.prompt'' (r_prompt r) of
        Some err \<Rightarrow> Some err
      | None \<Rightarrow> substring_call ''record.response'' (r_response r))"

text \<open>\<^verbatim>\<open>conversations.get(k).messages.push(r)\<close> for a key the map has.\<close>

fun Map_push :: "conversation js_map \<Rightarrow> jsval \<Rightarrow> response_record \<Rightarrow> conversation js_map" where
  "Map_push [] k r = []"
| "Map_push ((k', c) # m) k r =
     (if same_key k' k then (k', c\<lparr>messages := messages c @ [r]\<rparr>) # m
      else (k', c) # Map_push m k r)"

text \<open>The conversation is created when the map has none under the key, and the
  record is pushed onto its messages.\<close>

definition store_record :: "conversation js_map \<Rightarrow> jsval \<Rightarrow> string \<Rightarrow> response_record \<Rightarrow> conversation js_map" where
  "store_record convs cid now r =
     (if \<not> Map_has convs cid then convs @ [(cid, \<lparr>messages = [r], createdAt = now\<rparr>)]
      else Map_push convs cid r)"

subsection \<open>The callback\<close>

text \<open>The choice of \<^verbatim>\<open>callbackData\<close>.\<close>

definition callbackData_of :: "envelope \<Rightarrow> jsval" where
  "callbackData_of e =
     (if wh_type e = JStr ''task.ai_generated'' \<and> truthy (field (wh_ai_response e) ''data'')
      then field (wh_ai_response e) ''data''
      else if truthy (wh_data e) then wh_data e
      else jor (responseData_of e) (JObj []))"

text \<open>
  \<^verbatim>\<open>enrichedData\<close>: the identifiers are merged into an object, and an array or a
  primitive value is wrapped. In \<^verbatim>\<open>{...callbackData, id: .., conversation_id: ..}\<close> a name
  the object has keeps its place and takes the new value, a new name goes to the end.
\<close>

definition enrichedData_of :: "jsval \<Rightarrow> jsval \<Rightarrow> jsval \<Rightarrow> jsval" where
  "enrichedData_of callbackData mid cid =
     (if truthy callbackData \<and> typeof_object callbackData \<and> \<not> isArray callbackData
         \<and> callbackData \<noteq> JNull
      then JObj (AList.update ''conversation_id'' cid
                  (AList.update ''id'' mid (entries callbackData)))
      else if isArray callbackData
      then JObj [(''items'', callbackData), (''id'', mid), (''conversation_id'', cid)]
      else if callbackData \<noteq> JNull \<and> callbackData \<noteq> JUndef
      then JObj [(''content'', callbackData), (''id'', mid), (''conversation_id'', cid)]
      else JObj [(''id'', mid), (''conversation_id'', cid),
                 (''message'', JStr ''Response processed'')])"

definition callbackPayload_of :: "webhook_env \<Rightarrow> envelope \<Rightarrow> jsval \<Rightarrow> jsval \<Rightarrow> jsval" where
  "callbackPayload_of env e mid cid =
     JObj [(''data'', jor (enrichedData_of (callbackData_of e) mid cid) (JObj [])),
           (''task_id'', mid),
           (''metadata'',
              JObj [(''conversation_id'', cid),
                    (''channel_id'', wh_channel_id e),
                    (''processed_at'', JStr (processed_at_now env)),
                    (''usage'', jor (jor (jor (field (wh_meta e) ''usage'')
                                              (field (wh_data e) ''usage''))
                                         (field (field (wh_ai_response e) ''meta'') ''usage''))
                                    (JObj []))])]"

text \<open>The POST to the callback address, with its 30 second timeout.\<close>

definition callback_request :: "config \<Rightarrow> string \<Rightarrow> jsval \<Rightarrow> outbound" where
  "callback_request cfg u p =
     \<lparr>url = u,
      payload = p,
      headers = [(''Content-Type'', ''application/json''), (''Authorization'', bearer cfg)],
      timeout = Some 30000\<rparr>"

text \<open>\<^verbatim>\<open>validateStatus: (status) => status < 500\<close>.\<close>

definition callback_validateStatus :: "nat \<Rightarrow> bool" where
  "callback_validateStatus s = (s < 500)"

text \<open>
  The \<^verbatim>\<open>catch (callbackError)\<close> clause logs the failure. When the error has a
  response, the clause reads \<^verbatim>\<open>callbackPayload\<close>, a \<^verbatim>\<open>const\<close> of the \<^verbatim>\<open>try\<close> block that is
  not in scope there: the read throws, and the error leaves the clause. Otherwise the
  clause ends and the failure goes no further.
\<close>

definition callback_catch :: "js_error \<Rightarrow> js_error option" where
  "callback_catch callbackError =
     (if error_response callbackError \<noteq> None
      then Some (ReferenceError ''callbackPayload is not defined'')
      else None)"

text \<open>
  The callback step gives the error that leaves it, if any, and the POSTs made. An
  address that is no string or does not start with \<^verbatim>\<open>http\<close> is skipped; the comparison
  of the channel in the address with that of the envelope ends in a warning on the
  console and nothing else.
\<close>

definition send_callback :: "config \<Rightarrow> webhook_env \<Rightarrow> envelope \<Rightarrow> jsval \<Rightarrow> jsval \<Rightarrow> jsval \<Rightarrow> js_error option \<times> outbound list" where
  "send_callback cfg env e callbackUrl mid cid =
     (if \<not> truthy callbackUrl then (None, [])
      else case callbackUrl of
        JStr u \<Rightarrow>
          if take 4 u \<noteq> ''http'' then (None, [])
          else
            let p = callbackPayload_of env e mid cid in
            if \<not> truthy (field p ''data'') \<or> \<not> typeof_object (field p ''data'')
               \<or> isArray (field p ''data'')
            then (callback_catch (Error ''Callback data must be a valid object''), [])
            else (case axios_post callback_validateStatus (callback_outcome env) of
                    Inr r \<Rightarrow> (None, [callback_request cfg u p])
                  | Inl callbackError \<Rightarrow> (callback_catch callbackError, [callback_request cfg u p]))
      | _ \<Rightarrow> (None, []))"

subsection \<open>The handler\<close>

text \<open>The outer \<^verbatim>\<open>catch\<close> clause, and the acknowledgement.\<close>

definition webhook_catch :: "js_error \<Rightarrow> http_response" where
  "webhook_catch err = \<lparr>status = 500, body = JObj [(''error'', JStr (error_message err))]\<rparr>"

definition webhook_ack :: "jsval \<Rightarrow> http_response" where
  "webhook_ack mid =
     \<lparr>status = 200,
      body = JObj [(''success'', JBool True), (''message'', JStr ''Webhook processed''),
                   (''record_id'', mid)]\<rparr>"

text \<open>The two maps after the record is stored and the pending request removed.\<close>

definition stored :: "webhook_env \<Rightarrow> state \<Rightarrow> envelope \<Rightarrow> state" where
  "stored env st e =
     st\<lparr>conversations :=
          store_record (conversations st) (conversationId_of st e) (conversation_now env)
            (record_of env st e),
        pendingRequests := Map_delete (pendingRequests st) (wh_channel_id e)\<rparr>"

definition webhook_modelriver :: "config \<Rightarrow> webhook_env \<Rightarrow> state \<Rightarrow> request \<Rightarrow> http_response \<times> state \<times> outbound list" where
  "webhook_modelriver cfg env st req =
     (case destructure_body (req_body req) of
        Inl err \<Rightarrow> (webhook_catch err, st, [])
      | Inr e \<Rightarrow>
          (case log_record (record_of env st e) of
             Some err \<Rightarrow> (webhook_catch err, st, [])
           | None \<Rightarrow>
               (case send_callback cfg env e (callbackUrl_of e (req_headers req)) (messageId_of env st e)
                       (conversationId_of st e) of
                  (Some err, out) \<Rightarrow> (webhook_catch err, stored env st e, out)
                | (None, out) \<Rightarrow> (webhook_ack (messageId_of env st e), stored env st e, out))))"

section \<open>Example inputs\<close>

text \<open>A configuration with the API key set, and one without.\<close>

definition ex_config :: config where
  "ex_config = \<lparr>MODELRIVER_API_URL = ''https://api.modelriver.com'',
                 MODELRIVER_API_KEY = Some ''mr_test_mock_api_key_12345'',
                 BACKEND_PUBLIC_URL = ''http://localhost:4000''\<rparr>"

definition ex_config_nokey :: config where
  "ex_config_nokey = ex_config\<lparr>MODELRIVER_API_KEY := None\<rparr>"

text \<open>The surroundings of a webhook run whose callback address, if called, answers
  200.\<close>

definition ex_webhook_env :: webhook_env where
  "ex_webhook_env = \<lparr>uuid = ''3f2b8c1e-7a4d-4e5f-9b6a-0c1d2e3f4a5b'',
                      created_at_now = ''2026-01-10T12:34:56.789Z'',
                      conversation_now = ''2026-01-10T12:34:56.790Z'',
                      processed_at_now = ''2026-01-10T12:34:56.791Z'',
                      callback_outcome = Responded 200 (JObj [])\<rparr>"

text \<open>An unstructured answer and a structured one, as the README shows them.\<close>

definition ex_text_data :: jsval where
  "ex_text_data = JObj [(''choices'', JArr [JObj [(''message'',
      JObj [(''role'', JStr ''assistant''), (''content'', JStr ''Hello from AI'')])]])]"

definition ex_structured_data :: jsval where
  "ex_structured_data = JObj [(''reply'', JStr ''ok''), (''sentiment'', JStr ''neutral'')]"

text \<open>The server right after its start.\<close>

definition ex_empty :: state where
  "ex_empty = \<lparr>conversations = [], pendingRequests = []\<rparr>"

text \<open>A chat request, the surroundings in which the provider accepts it, and the
  pending request it leaves behind.\<close>

definition ex_chat_env :: chat_env where
  "ex_chat_env = \<lparr>uuid_conversation = ''9d3c1f0a-5b7e-4c2d-8a1f-6e4b2c0d9f31'',
                   uuid_message = ''1b9d6bcd-bbfd-4b2d-9b5d-ab8dfbbd4bed'',
                   metadata_now = 1768048496000,
                   pending_now = 1768048496123,
                   provider_outcome = Responded 200
                     (JObj [(''channel_id'', JStr ''mock-channel-123''),
                            (''ws_token'', JStr ''mock-ws-token''),
                            (''websocket_url'', JStr ''wss://api.modelriver.com/socket''),
                            (''websocket_channel'', JStr ''ai_response:project:channel''),
                            (''project_id'', JStr ''mock-project'')])\<rparr>"

definition ex_chat_request :: request where
  "ex_chat_request = \<lparr>req_body = JObj [(''message'', JStr ''Hello test'')], req_headers = []\<rparr>"

definition ex_pending :: pending where
  "ex_pending = \<lparr>prompt = JStr ''Hello test'',
                  timestamp = 1768048496123,
                  conversationId = JStr ''9d3c1f0a-5b7e-4c2d-8a1f-6e4b2c0d9f31'',
                  messageId = JStr ''1b9d6bcd-bbfd-4b2d-9b5d-ab8dfbbd4bed''\<rparr>"

definition ex_waiting :: state where
  "ex_waiting = \<lparr>conversations = [], pendingRequests = [(JStr ''mock-channel-123'', ex_pending)]\<rparr>"

text \<open>The provider cannot be reached, or turns the request down.\<close>

definition ex_chat_env_down :: chat_env where
  "ex_chat_env_down = ex_chat_env\<lparr>provider_outcome := Failed ''connect ECONNREFUSED 127.0.0.1:443''\<rparr>"

definition ex_chat_env_rejected :: chat_env where
  "ex_chat_env_rejected = ex_chat_env\<lparr>provider_outcome :=
     Responded 422 (JObj [(''message'', JStr ''Unknown workflow''), (''code'', JStr ''invalid_workflow'')])\<rparr>"

text \<open>Webhooks for the channel of the pending request: with a text answer, with
  a structured answer, and with a callback address; and a callback address that
  answers 503.\<close>

definition ex_webhook_env_503 :: webhook_env where
  "ex_webhook_env_503 = ex_webhook_env\<lparr>callback_outcome :=
     Responded 503 (JObj [(''error'', JStr ''Service Unavailable'')])\<rparr>"

definition ex_callback_url :: string where
  "ex_callback_url = ''https://api.modelriver.com/v1/callback/mock-channel-123''"

definition ex_webhook_text :: request where
  "ex_webhook_text = \<lparr>req_body = JObj [(''channel_id'', JStr ''mock-channel-123''),
                                         (''status'', JStr ''success''),
                                         (''data'', ex_text_data)],
                       req_headers = []\<rparr>"

definition ex_webhook_structured :: request where
  "ex_webhook_structured = \<lparr>req_body = JObj [(''channel_id'', JStr ''mock-channel-123''),
                                               (''status'', JStr ''success''),
                                               (''data'', ex_structured_data)],
                             req_headers = []\<rparr>"

definition ex_webhook_structured_error :: request where
  "ex_webhook_structured_error = \<lparr>req_body = JObj [(''channel_id'', JStr ''mock-channel-123''),
                                                     (''status'', JStr ''error''),
                                                     (''data'', ex_structured_data)],
                                   req_headers = []\<rparr>"

definition ex_webhook_callback :: request where
  "ex_webhook_callback = \<lparr>req_body = JObj [(''channel_id'', JStr ''mock-channel-123''),
                                             (''status'', JStr ''success''),
                                             (''data'', ex_text_data),
                                             (''callback_url'', JStr ex_callback_url)],
                           req_headers = []\<rparr>"

text \<open>The envelope of the webhook with the text answer, and one in which the
  provider puts identifiers of its own into the data.\<close>

definition ex_envelope_text :: envelope where
  "ex_envelope_text = \<lparr>wh_channel_id = JStr ''mock-channel-123'', wh_status = JStr ''success'',
                        wh_data = ex_text_data, wh_meta = JUndef, wh_callback_url = JUndef,
                        wh_type = JUndef, wh_event = JUndef, wh_ai_response = JUndef\<rparr>"

definition ex_envelope_provider_ids :: envelope where
  "ex_envelope_provider_ids = ex_envelope_text\<lparr>wh_data :=
     JObj [(''id'', JStr ''chatcmpl-provider-1''), (''conversation_id'', JStr ''provider-conv-1''),
           (''choices'', JArr [JObj [(''message'', JObj [(''content'', JStr ''Hello from AI'')])]])]\<rparr>"

text \<open>An array as answer, and an object whose \<^verbatim>\<open>choices\<close> is \<^verbatim>\<open>null\<close>.\<close>

definition ex_array_data :: jsval where
  "ex_array_data = JArr [JStr ''a'']"

definition ex_null_choices_data :: jsval where
  "ex_null_choices_data = JObj [(''choices'', JNull), (''reply'', JStr ''ok'')]"

section \<open>The response value in the words of the specification\<close>

text \<open>
  The specification gives the rule for the response value as follows: a non-array
  object that has neither a \<^verbatim>\<open>choices\<close> field nor a \<^verbatim>\<open>response\<close> field is passed through
  unmodified; otherwise the value is \<^verbatim>\<open>choices[0].message.content\<close>, falling back to
  \<^verbatim>\<open>response.choices[0].message.content\<close>, falling back to the JSON text of the payload.
  Falling back is read as \<^verbatim>\<open>||\<close> does it.
\<close>

fun plain_object :: "jsval \<Rightarrow> bool" where
  "plain_object (JObj kvs) = True"
| "plain_object v = False"

definition has_field :: "jsval \<Rightarrow> string \<Rightarrow> bool" where
  "has_field v k = (k \<in> set (map fst (entries v)))"

definition spec_response_value :: "jsval \<Rightarrow> jsval" where
  "spec_response_value p =
     (if plain_object p \<and> \<not> has_field p ''choices'' \<and> \<not> has_field p ''response'' then p
      else jor (jor (field (field (index0 (field p ''choices'')) ''message'') ''content'')
                    (field (field (index0 (field (field p ''response'') ''choices''))
                              ''message'') ''content''))
               (stringify p))"

section \<open>Reading the body\<close>

lemma field_update_same: "field (JObj (AList.update k v kvs)) k = v"
  by (simp add: update_conv')

lemma field_update_other:
  "k \<noteq> k' \<Longrightarrow> field (JObj (AList.update k' v kvs)) k = field (JObj kvs) k"
  by (simp add: update_conv')

lemma jor_defined: "b \<noteq> JUndef \<Longrightarrow> jor a b \<noteq> JUndef"
  by (cases a) (auto simp: jor_def)


section \<open>The status field of the envelope\<close>

lemma destructure_body_status:
  "\<exists>e. destructure_body (JObj (AList.update ''status'' s kvs)) = Inr (e\<lparr>wh_status := s\<rparr>)
     \<and> destructure_body (JObj kvs) = Inr e"
  by (simp add: destructure_body_def field_update_other field_update_same del: field.simps)

lemma status_unused:
  "record_of env st (e\<lparr>wh_status := s\<rparr>) = record_of env st e"
  "messageId_of env st (e\<lparr>wh_status := s\<rparr>) = messageId_of env st e"
  "conversationId_of st (e\<lparr>wh_status := s\<rparr>) = conversationId_of st e"
  "callbackUrl_of (e\<lparr>wh_status := s\<rparr>) hs = callbackUrl_of e hs"
  "callbackPayload_of env (e\<lparr>wh_status := s\<rparr>) mid cid = callbackPayload_of env e mid cid"
  by (simp_all add: record_of_def messageId_of_def customMessageId_of_def conversationId_of_def
      prompt_of_def pendingRequest_of_def responseDataToProcess_of_def responseData_of_def
      callbackUrl_of_def callbackPayload_of_def callbackData_of_def)

lemma status_unused_callback:
  "send_callback cfg env (e\<lparr>wh_status := s\<rparr>) u mid cid = send_callback cfg env e u mid cid"
  unfolding send_callback_def status_unused ..

lemma status_unused_stored:
  "stored env st (e\<lparr>wh_status := s\<rparr>) = stored env st e"
  by (simp add: stored_def status_unused)

text \<open>
  The handler takes \<^verbatim>\<open>status\<close> out of the body and never looks at it again: two
  envelopes that differ in the value of \<^verbatim>\<open>status\<close> only are processed alike. From the
  same maps and in the same surroundings the two runs give the same answer, the same
  maps afterwards and the same callback.
\<close>

lemma webhook_ignores_status:
  "webhook_modelriver cfg env st
     \<lparr>req_body = JObj (AList.update ''status'' s1 kvs), req_headers = hs\<rparr>
   = webhook_modelriver cfg env st
     \<lparr>req_body = JObj (AList.update ''status'' s2 kvs), req_headers = hs\<rparr>"
proof -
  obtain e1 where e1:
    "destructure_body (JObj (AList.update ''status'' s1 kvs)) = Inr (e1\<lparr>wh_status := s1\<rparr>)"
    "destructure_body (JObj kvs) = Inr e1"
    using destructure_body_status by blast
  obtain e2 where e2:
    "destructure_body (JObj (AList.update ''status'' s2 kvs)) = Inr (e2\<lparr>wh_status := s2\<rparr>)"
    "destructure_body (JObj kvs) = Inr e2"
    using destructure_body_status by blast
  from e1(2) e2(2) have "e1 = e2" by simp
  with e1(1) e2(1) show ?thesis
    by (simp add: webhook_modelriver_def status_unused status_unused_callback
        status_unused_stored split: option.split prod.split)
qed

section \<open>Webhook authentication\<close>

text \<open>The handler answers 200 or 500, and of the headers only
  \<^verbatim>\<open>x-modelriver-callback-url\<close> has a part in what it does.\<close>

lemma webhook_status:
  "status (fst (webhook_modelriver cfg env st req)) = 200
   \<or> status (fst (webhook_modelriver cfg env st req)) = 500"
  by (simp add: webhook_modelriver_def webhook_catch_def webhook_ack_def
      split: sum.split option.split prod.split)

lemma webhook_headers_unused:
  "map_of hs ''x-modelriver-callback-url'' = map_of hs' ''x-modelriver-callback-url'' \<Longrightarrow>
     webhook_modelriver cfg env st \<lparr>req_body = b, req_headers = hs\<rparr>
       = webhook_modelriver cfg env st \<lparr>req_body = b, req_headers = hs'\<rparr>"
proof -
  assume "map_of hs ''x-modelriver-callback-url'' = map_of hs' ''x-modelriver-callback-url''"
  then have "callbackUrl_of e hs = callbackUrl_of e hs'" for e
    by (simp add: callbackUrl_of_def)
  then show ?thesis
    by (simp add: webhook_modelriver_def split: sum.split option.split)
qed

text \<open>
  Claim C1. The README and the tests of the backend describe a check of the
  \<^verbatim>\<open>X-ModelRiver-Signature\<close> header that answers 401 when the header is missing. The
  handler in \<^verbatim>\<open>server.js\<close> reads one header only, \<^verbatim>\<open>x-modelriver-callback-url\<close>: the
  request of the test ``should reject webhook with missing signature header'', which
  carries a timestamp and no signature, is processed, acknowledged with 200, and its
  record is stored.
\<close>

theorem webhook_without_signature_is_processed:
  "webhook_modelriver ex_config ex_webhook_env ex_empty
     \<lparr>req_body = JObj [(''channel_id'', JStr ''test-channel''), (''status'', JStr ''success''),
                       (''data'', ex_text_data)],
      req_headers = [(''x-modelriver-timestamp'', ''1234567890'')]\<rparr>
   = (\<lparr>status = 200,
       body = JObj [(''success'', JBool True), (''message'', JStr ''Webhook processed''),
                    (''record_id'', JStr ''3f2b8c1e-7a4d-4e5f-9b6a-0c1d2e3f4a5b'')]\<rparr>,
      \<lparr>conversations =
         [(JUndef, \<lparr>messages = [\<lparr>r_id = JStr ''3f2b8c1e-7a4d-4e5f-9b6a-0c1d2e3f4a5b'',
                                   r_prompt = JStr ''Unknown prompt'',
                                   r_response = JStr ''Hello from AI'',
                                   r_created_at = ''2026-01-10T12:34:56.789Z'',
                                   r_channel_id = JStr ''test-channel'',
                                   r_conversation_id = JUndef,
                                   r_usage = JUndef\<rparr>],
                    createdAt = ''2026-01-10T12:34:56.790Z''\<rparr>)],
       pendingRequests = []\<rparr>,
      [])"
  by code_simp


section \<open>\<^verbatim>\<open>POST /chat\<close>: validation and dispatch\<close>

text \<open>
  Claim C8. The handler tests the message first and the API key second. A request
  with a body and no message, or an empty one (or any other falsy value), is answered
  400; a request with a message is answered 500 when the key is not set; in both cases
  nothing is sent and nothing stored. A call to the provider is made only for a
  non-empty message and with the key set.
\<close>

theorem chat_preconditions:
  "(\<not> nullish (req_body req) \<and> \<not> truthy (field (req_body req) ''message'') \<longrightarrow>
      chat cfg env st req =
        (\<lparr>status = 400, body = JObj [(''error'', JStr ''Message is required'')]\<rparr>, st, []))
   \<and> (truthy (field (req_body req) ''message'') \<and> \<not> api_key_set cfg \<longrightarrow>
      status (fst (chat cfg env st req)) = 500
      \<and> fst (snd (chat cfg env st req)) = st
      \<and> snd (snd (chat cfg env st req)) = [])
   \<and> (snd (snd (chat cfg env st req)) \<noteq> [] \<longrightarrow>
      truthy (field (req_body req) ''message'') \<and> field (req_body req) ''message'' \<noteq> JStr []
      \<and> field (req_body req) ''message'' \<noteq> JUndef \<and> api_key_set cfg)"
proof (intro conjI impI)
  assume "\<not> nullish (req_body req) \<and> \<not> truthy (field (req_body req) ''message'')"
  then show "chat cfg env st req =
        (\<lparr>status = 400, body = JObj [(''error'', JStr ''Message is required'')]\<rparr>, st, [])"
    by (simp add: chat_def)
next
  assume a: "truthy (field (req_body req) ''message'') \<and> \<not> api_key_set cfg"
  then have nn: "\<not> nullish (req_body req)" by (cases "req_body req") auto
  with a show "status (fst (chat cfg env st req)) = 500" by (simp add: chat_def)
  from a nn show "fst (snd (chat cfg env st req)) = st" by (simp add: chat_def)
  from a nn show "snd (snd (chat cfg env st req)) = []" by (simp add: chat_def)
next
  assume c: "snd (snd (chat cfg env st req)) \<noteq> []"
  then have t: "truthy (field (req_body req) ''message'')"
    by (auto simp: chat_def Let_def chat_catch_def split: if_splits)
  from c show "truthy (field (req_body req) ''message'')" by (rule_tac t)
  from t show "field (req_body req) ''message'' \<noteq> JStr []" by auto
  from t show "field (req_body req) ''message'' \<noteq> JUndef" by auto
  from c show "api_key_set cfg"
    by (auto simp: chat_def Let_def chat_catch_def split: if_splits)
qed

theorem chat_preconditions_witness:
  "chat ex_config ex_chat_env ex_empty \<lparr>req_body = JObj [], req_headers = []\<rparr> =
     (\<lparr>status = 400, body = JObj [(''error'', JStr ''Message is required'')]\<rparr>, ex_empty, [])
   \<and> status (fst (chat ex_config_nokey ex_chat_env ex_empty ex_chat_request)) = 500
   \<and> snd (snd (chat ex_config_nokey ex_chat_env ex_empty ex_chat_request)) = []
   \<and> snd (snd (chat ex_config ex_chat_env ex_empty ex_chat_request)) \<noteq> []
   \<and> truthy (field (req_body ex_chat_request) ''message'') \<and> api_key_set ex_config"
proof -
  have a: "\<not> nullish (req_body \<lparr>req_body = JObj [], req_headers = []\<rparr>)
      \<and> \<not> truthy (field (req_body \<lparr>req_body = JObj [], req_headers = []\<rparr>) ''message'')"
    by simp
  have b: "truthy (field (req_body ex_chat_request) ''message'') \<and> \<not> api_key_set ex_config_nokey"
    by (simp add: ex_chat_request_def ex_config_nokey_def ex_config_def api_key_set_def)
  have c: "snd (snd (chat ex_config ex_chat_env ex_empty ex_chat_request)) \<noteq> []"
    by code_simp
  from a b c
    chat_preconditions [of "\<lparr>req_body = JObj [], req_headers = []\<rparr>" ex_config ex_chat_env ex_empty]
    chat_preconditions [of ex_chat_request ex_config_nokey ex_chat_env ex_empty]
    chat_preconditions [of ex_chat_request ex_config ex_chat_env ex_empty]
  show ?thesis by blast
qed


text \<open>
  Claim C9. When the call to the provider fails, with no answer or with a status
  outside 200--299, \<^verbatim>\<open>POST /chat\<close> answers 500; the error is the \<^verbatim>\<open>message\<close> of the
  provider's body when it has one and the message of the failure otherwise, the details
  are the provider's body; and the maps are what they were: no pending request is
  added.
\<close>

theorem chat_dispatch_failure:
  assumes "truthy (field (req_body req) ''message'')" and "api_key_set cfg"
  shows "(provider_outcome env = Failed m \<longrightarrow>
            fst (chat cfg env st req) =
              \<lparr>status = 500, body = JObj [(''error'', JStr m), (''details'', JUndef)]\<rparr>
            \<and> fst (snd (chat cfg env st req)) = st)
       \<and> (provider_outcome env = Responded s d \<and> \<not> (200 \<le> s \<and> s < 300) \<longrightarrow>
            fst (chat cfg env st req) =
              \<lparr>status = 500,
               body = JObj [(''error'', jor (field d ''message'')
                                            (JStr (''Request failed with status code '' @ show_nat s))),
                            (''details'', d)]\<rparr>
            \<and> fst (snd (chat cfg env st req)) = st)"
proof -
  from assms(1) have nn: "\<not> nullish (req_body req)" by (cases "req_body req") auto
  with assms show ?thesis
    by (auto simp: chat_def Let_def chat_catch_def default_validateStatus_def
        error_response_data_def jor_def)
qed


theorem chat_dispatch_failure_witness:
  "fst (chat ex_config ex_chat_env_down ex_empty ex_chat_request) =
     \<lparr>status = 500,
      body = JObj [(''error'', JStr ''connect ECONNREFUSED 127.0.0.1:443''), (''details'', JUndef)]\<rparr>
   \<and> fst (snd (chat ex_config ex_chat_env_down ex_empty ex_chat_request)) = ex_empty
   \<and> fst (chat ex_config ex_chat_env_rejected ex_empty ex_chat_request) =
     \<lparr>status = 500,
      body = JObj [(''error'', JStr ''Unknown workflow''),
                   (''details'', JObj [(''message'', JStr ''Unknown workflow''),
                                       (''code'', JStr ''invalid_workflow'')])]\<rparr>
   \<and> fst (snd (chat ex_config ex_chat_env_rejected ex_empty ex_chat_request)) = ex_empty"
proof -
  have m: "truthy (field (req_body ex_chat_request) ''message'')"
    by (simp add: ex_chat_request_def)
  have k: "api_key_set ex_config"
    by (simp add: ex_config_def api_key_set_def)
  have d: "provider_outcome ex_chat_env_down = Failed ''connect ECONNREFUSED 127.0.0.1:443''"
    by (simp add: ex_chat_env_down_def)
  have r: "provider_outcome ex_chat_env_rejected =
      Responded 422 (JObj [(''message'', JStr ''Unknown workflow''), (''code'', JStr ''invalid_workflow'')])
      \<and> \<not> (200 \<le> (422::nat) \<and> (422::nat) < 300)"
    by (simp add: ex_chat_env_rejected_def)
  from d r
    chat_dispatch_failure [OF m k, of ex_chat_env_down "''connect ECONNREFUSED 127.0.0.1:443''" ex_empty]
    chat_dispatch_failure [OF m k, of ex_chat_env_rejected _ ex_empty 422
      "JObj [(''message'', JStr ''Unknown workflow''), (''code'', JStr ''invalid_workflow'')]"]
  show ?thesis by (simp add: jor_def)
qed


section \<open>The maps\<close>

lemma same_key_str [simp]: "same_key k (JStr c) = (k = JStr c)"
  by (simp add: same_key_def)

lemma same_key_undef [simp]: "same_key k JUndef = (k = JUndef)"
  by (simp add: same_key_def)

lemma same_key_eq: "same_key k' k \<Longrightarrow> k' = k"
  by (simp add: same_key_def)

lemma Map_get_append:
  "Map_get (m @ [(k, v)]) k' =
     (case Map_get m k' of Some w \<Rightarrow> Some w | None \<Rightarrow> if same_key k k' then Some v else None)"
  by (induction m) auto

lemma Map_get_replace:
  "Map_get m k \<noteq> None \<Longrightarrow> Map_get (Map_replace m k v) k = Some v"
  by (induction m) auto

lemma Map_get_set:
  "same_key k k \<Longrightarrow> Map_get (Map_set m k v) k = Some v"
  by (simp add: Map_set_def Map_has_def Map_get_replace Map_get_append)

lemma Map_get_delete: "Map_get (Map_delete m k) k = None"
  by (induction m) (auto simp: Map_delete_def)

lemma Map_push_holds:
  "Map_get m k \<noteq> None \<Longrightarrow>
     \<exists>c. (k, c) \<in> set (Map_push m k r) \<and> messages c \<noteq> [] \<and> last (messages c) = r"
proof (induction m)
  case Nil
  then show ?case by simp
next
  case (Cons a m)
  obtain k' c' where a: "a = (k', c')" by (cases a)
  show ?case
  proof (cases "same_key k' k")
    case True
    then have "k' = k" by (rule same_key_eq)
    with True a show ?thesis by auto
  next
    case False
    with Cons a obtain c where "(k, c) \<in> set (Map_push m k r)" "messages c \<noteq> []" "last (messages c) = r"
      by auto
    with False a show ?thesis by auto
  qed
qed

lemma store_record_holds:
  "\<exists>c. (cid, c) \<in> set (store_record convs cid now r) \<and> messages c \<noteq> [] \<and> last (messages c) = r"
  by (auto simp: store_record_def Map_has_def Map_push_holds)

lemma webhook_reaches_store:
  assumes "destructure_body (req_body req) = Inr e" and "log_record (record_of env st e) = None"
  shows "fst (snd (webhook_modelriver cfg env st req)) = stored env st e"
  using assms by (simp add: webhook_modelriver_def split: option.split prod.split)

lemma webhook_stops_at_log:
  assumes "destructure_body (req_body req) = Inr e" and "log_record (record_of env st e) = Some err"
  shows "webhook_modelriver cfg env st req = (webhook_catch err, st, [])"
  using assms by (simp add: webhook_modelriver_def)

lemma log_record_None:
  "log_record r = None \<longleftrightarrow>
     (nullish (r_prompt r) \<or> typeof_string (r_prompt r)) \<and>
     (nullish (r_response r) \<or> typeof_string (r_response r))"
  by (simp add: log_record_def substring_call_def)


text \<open>The definitions that a run of the handler on given inputs unfolds.\<close>

lemmas webhook_defs =
  webhook_modelriver_def destructure_body_def record_of_def log_record_def substring_call_def
  messageId_of_def customMessageId_of_def conversationId_of_def prompt_of_def pendingRequest_of_def
  responseDataToProcess_of_def responseData_of_def aiResponse_of_def callbackUrl_of_def
  send_callback_def callbackPayload_of_def callbackData_of_def enrichedData_of_def
  callback_validateStatus_def callback_catch_def callback_request_def stored_def store_record_def
  Map_has_def Map_delete_def webhook_catch_def webhook_ack_def jor_def stringify_def

lemmas ex_defs =
  ex_webhook_structured_error_def ex_config_def ex_webhook_env_def ex_webhook_env_503_def ex_waiting_def ex_pending_def ex_empty_def
  ex_text_data_def ex_structured_data_def ex_webhook_text_def ex_webhook_structured_def
  ex_webhook_callback_def ex_callback_url_def ex_chat_env_def ex_chat_request_def

lemma ex_webhook_text_envelope:
  "destructure_body (req_body ex_webhook_text) = Inr ex_envelope_text"
  by (simp add: ex_webhook_text_def destructure_body_def ex_envelope_text_def)


section \<open>The callback payload\<close>

lemma truthy_enrichedData: "truthy (enrichedData_of cb mid cid)"
  by (simp add: enrichedData_of_def)

lemma enrichedData_object:
  "\<exists>kvs. enrichedData_of cb mid cid = JObj kvs \<and> map_of kvs ''id'' = Some mid
     \<and> map_of kvs ''conversation_id'' = Some cid"
  by (simp add: enrichedData_of_def update_conv')

lemma enrichedData_merge:
  "map_of (entries (enrichedData_of (JObj kvs) mid cid))
     = (map_of kvs)(''id'' \<mapsto> mid, ''conversation_id'' \<mapsto> cid)"
  by (simp add: enrichedData_of_def update_conv')

lemma callbackPayload_data:
  "field (callbackPayload_of env e mid cid) ''data'' = enrichedData_of (callbackData_of e) mid cid"
  by (simp add: callbackPayload_of_def jor_def truthy_enrichedData)

lemma send_callback_calls:
  "c \<in> set (snd (send_callback cfg env e u mid cid)) \<Longrightarrow>
     (\<exists>a. c = callback_request cfg a (callbackPayload_of env e mid cid))"
  by (auto simp: send_callback_def Let_def split: if_splits jsval.splits sum.splits)

lemma webhook_calls:
  "c \<in> set (snd (snd (webhook_modelriver cfg env st req))) \<Longrightarrow>
     \<exists>e. destructure_body (req_body req) = Inr e \<and>
         c \<in> set (snd (send_callback cfg env e (callbackUrl_of e (req_headers req))
                         (messageId_of env st e) (conversationId_of st e)))"
  by (auto simp: webhook_modelriver_def split: sum.splits option.splits prod.splits)


lemma JSON_stringify_None: "JSON_stringify v = None \<longleftrightarrow> v = JUndef"
  by (cases v) simp_all

lemma JSON_stringify_drops_undefined:
  "JSON_stringify (JObj kvs) = JSON_stringify (JObj (filter (\<lambda>kv. snd kv \<noteq> JUndef) kvs))"
proof -
  have "concat (map (\<lambda>kv. case JSON_stringify (snd kv) of
                             None \<Rightarrow> []
                           | Some t \<Rightarrow> [quote (fst kv) @ '':'' @ t]) kvs)
      = concat (map (\<lambda>kv. case JSON_stringify (snd kv) of
                             None \<Rightarrow> []
                           | Some t \<Rightarrow> [quote (fst kv) @ '':'' @ t])
                    (filter (\<lambda>kv. snd kv \<noteq> JUndef) kvs))"
    by (induction kvs) (auto simp: JSON_stringify_None)
  then show ?thesis by simp
qed

lemma messageId_defined: "messageId_of env st e \<noteq> JUndef"
  by (simp add: messageId_of_def jor_defined)

text \<open>
  For a channel without pending request the conversation identifier is \<^verbatim>\<open>undefined\<close>:
  the data handed to the POST has the property with that value, and the JSON text
  posted, which is that of the object without the property, has no \<^verbatim>\<open>conversation_id\<close>.
\<close>

theorem callback_data_without_conversation_id:
  "length (snd (snd (webhook_modelriver ex_config ex_webhook_env ex_empty ex_webhook_callback))) = 1
   \<and> field (payload (hd (snd (snd (webhook_modelriver ex_config ex_webhook_env ex_empty
                                      ex_webhook_callback))))) ''data''
       = JObj [(''choices'', JArr [JObj [(''message'',
                  JObj [(''role'', JStr ''assistant''), (''content'', JStr ''Hello from AI'')])]]),
               (''id'', JStr ''3f2b8c1e-7a4d-4e5f-9b6a-0c1d2e3f4a5b''),
               (''conversation_id'', JUndef)]
   \<and> JSON_stringify
         (JObj [(''choices'', JArr [JObj [(''message'',
                  JObj [(''role'', JStr ''assistant''), (''content'', JStr ''Hello from AI'')])]]),
               (''id'', JStr ''3f2b8c1e-7a4d-4e5f-9b6a-0c1d2e3f4a5b''),
               (''conversation_id'', JUndef)])
       = JSON_stringify
         (JObj [(''choices'', JArr [JObj [(''message'',
                  JObj [(''role'', JStr ''assistant''), (''content'', JStr ''Hello from AI'')])]]),
               (''id'', JStr ''3f2b8c1e-7a4d-4e5f-9b6a-0c1d2e3f4a5b'')])"
  by (simp add: webhook_defs ex_defs)

text \<open>
  Claim C6, as the code has it. Whatever \<^verbatim>\<open>callbackData\<close> is (an object, an array, a
  string or another primitive, \<^verbatim>\<open>null\<close> or \<^verbatim>\<open>undefined\<close>), \<^verbatim>\<open>enrichedData\<close> is an object, not
  an array, whose \<^verbatim>\<open>id\<close> is the message identifier and whose \<^verbatim>\<open>conversation_id\<close> is the
  conversation identifier; for an object it has the properties of \<^verbatim>\<open>callbackData\<close> with
  those two overwritten. Every POST the webhook handler makes carries that value as the
  \<^verbatim>\<open>data\<close> of its payload. The message identifier is never \<^verbatim>\<open>undefined\<close>; the
  conversation identifier is that of the pending request of the channel and
  \<^verbatim>\<open>undefined\<close> when there is none; and a property whose value is \<^verbatim>\<open>undefined\<close> is not
  written into the JSON text.
\<close>

theorem callback_data_shape:
  "(\<exists>kvs. enrichedData_of cb mid cid = JObj kvs \<and> map_of kvs ''id'' = Some mid
       \<and> map_of kvs ''conversation_id'' = Some cid)
   \<and> map_of (entries (enrichedData_of (JObj kvs0) mid cid))
       = (map_of kvs0)(''id'' \<mapsto> mid, ''conversation_id'' \<mapsto> cid)
   \<and> JSON_stringify (JObj kvs1)
       = JSON_stringify (JObj (filter (\<lambda>kv. snd kv \<noteq> JUndef) kvs1))
   \<and> (\<forall>c \<in> set (snd (snd (webhook_modelriver cfg env st req))).
        \<exists>e. destructure_body (req_body req) = Inr e
          \<and> field (payload c) ''data''
              = enrichedData_of (callbackData_of e) (messageId_of env st e) (conversationId_of st e)
          \<and> messageId_of env st e \<noteq> JUndef
          \<and> conversationId_of st e
              = (case Map_get (pendingRequests st) (wh_channel_id e) of
                   None \<Rightarrow> JUndef
                 | Some p \<Rightarrow> conversationId p))"
proof (intro conjI ballI)
  show "\<exists>kvs. enrichedData_of cb mid cid = JObj kvs \<and> map_of kvs ''id'' = Some mid
       \<and> map_of kvs ''conversation_id'' = Some cid"
    by (rule enrichedData_object)
  show "map_of (entries (enrichedData_of (JObj kvs0) mid cid))
       = (map_of kvs0)(''id'' \<mapsto> mid, ''conversation_id'' \<mapsto> cid)"
    by (rule enrichedData_merge)
  show "JSON_stringify (JObj kvs1)
       = JSON_stringify (JObj (filter (\<lambda>kv. snd kv \<noteq> JUndef) kvs1))"
    by (rule JSON_stringify_drops_undefined)
next
  fix c assume "c \<in> set (snd (snd (webhook_modelriver cfg env st req)))"
  then obtain e where e: "destructure_body (req_body req) = Inr e"
    and c: "c \<in> set (snd (send_callback cfg env e (callbackUrl_of e (req_headers req))
                         (messageId_of env st e) (conversationId_of st e)))"
    using webhook_calls by blast
  from c obtain a where "c = callback_request cfg a
      (callbackPayload_of env e (messageId_of env st e) (conversationId_of st e))"
    using send_callback_calls by blast
  then have "field (payload c) ''data''
      = enrichedData_of (callbackData_of e) (messageId_of env st e) (conversationId_of st e)"
    by (simp add: callback_request_def callbackPayload_data)
  moreover have "conversationId_of st e
              = (case Map_get (pendingRequests st) (wh_channel_id e) of
                   None \<Rightarrow> JUndef
                 | Some p \<Rightarrow> conversationId p)"
    by (simp add: conversationId_of_def pendingRequest_of_def)
  ultimately show "\<exists>e. destructure_body (req_body req) = Inr e
          \<and> field (payload c) ''data''
              = enrichedData_of (callbackData_of e) (messageId_of env st e) (conversationId_of st e)
          \<and> messageId_of env st e \<noteq> JUndef
          \<and> conversationId_of st e
              = (case Map_get (pendingRequests st) (wh_channel_id e) of
                   None \<Rightarrow> JUndef
                 | Some p \<Rightarrow> conversationId p)"
    using e messageId_defined by blast
qed

theorem callback_data_shape_witness:
  "snd (snd (webhook_modelriver ex_config ex_webhook_env ex_waiting ex_webhook_callback)) \<noteq> []
   \<and> field (payload (hd (snd (snd (webhook_modelriver ex_config ex_webhook_env ex_waiting
                                      ex_webhook_callback))))) ''data''
       = JObj [(''choices'', JArr [JObj [(''message'',
                  JObj [(''role'', JStr ''assistant''), (''content'', JStr ''Hello from AI'')])]]),
               (''id'', JStr ''1b9d6bcd-bbfd-4b2d-9b5d-ab8dfbbd4bed''),
               (''conversation_id'', JStr ''9d3c1f0a-5b7e-4c2d-8a1f-6e4b2c0d9f31'')]"
proof -
  let ?calls = "snd (snd (webhook_modelriver ex_config ex_webhook_env ex_waiting ex_webhook_callback))"
  have ne: "?calls \<noteq> []" by (simp add: webhook_defs ex_defs)
  then have "hd ?calls \<in> set ?calls" by simp
  with callback_data_shape [of _ _ _ _ _ ex_config ex_webhook_env ex_waiting ex_webhook_callback]
  obtain e where e: "destructure_body (req_body ex_webhook_callback) = Inr e"
    and d: "field (payload (hd ?calls)) ''data''
        = enrichedData_of (callbackData_of e) (messageId_of ex_webhook_env ex_waiting e)
            (conversationId_of ex_waiting e)"
    by blast
  have "destructure_body (req_body ex_webhook_callback)
      = Inr \<lparr>wh_channel_id = JStr ''mock-channel-123'', wh_status = JStr ''success'',
             wh_data = ex_text_data, wh_meta = JUndef, wh_callback_url = JStr ex_callback_url,
             wh_type = JUndef, wh_event = JUndef, wh_ai_response = JUndef\<rparr>"
    by (simp add: ex_webhook_callback_def destructure_body_def)
  with e have "e = \<lparr>wh_channel_id = JStr ''mock-channel-123'', wh_status = JStr ''success'',
             wh_data = ex_text_data, wh_meta = JUndef, wh_callback_url = JStr ex_callback_url,
             wh_type = JUndef, wh_event = JUndef, wh_ai_response = JUndef\<rparr>"
    by simp
  with d have "field (payload (hd ?calls)) ''data''
       = JObj [(''choices'', JArr [JObj [(''message'',
                  JObj [(''role'', JStr ''assistant''), (''content'', JStr ''Hello from AI'')])]]),
               (''id'', JStr ''1b9d6bcd-bbfd-4b2d-9b5d-ab8dfbbd4bed''),
               (''conversation_id'', JStr ''9d3c1f0a-5b7e-4c2d-8a1f-6e4b2c0d9f31'')]"
    by (simp add: enrichedData_of_def callbackData_of_def messageId_of_def customMessageId_of_def
        conversationId_of_def pendingRequest_of_def ex_waiting_def ex_pending_def ex_text_data_def
        jor_def)
  with ne show ?thesis by simp
qed



section \<open>What the callback step lets through\<close>

lemma callback_timeout:
  "c \<in> set (snd (snd (webhook_modelriver cfg env st req))) \<Longrightarrow> timeout c = Some 30000"
proof -
  assume "c \<in> set (snd (snd (webhook_modelriver cfg env st req)))"
  then obtain e where "c \<in> set (snd (send_callback cfg env e (callbackUrl_of e (req_headers req))
      (messageId_of env st e) (conversationId_of st e)))"
    using webhook_calls by blast
  then obtain a where "c = callback_request cfg a
      (callbackPayload_of env e (messageId_of env st e) (conversationId_of st e))"
    using send_callback_calls by blast
  then show ?thesis by (simp add: callback_request_def)
qed

lemma send_callback_below_500:
  "\<forall>s d. callback_outcome env = Responded s d \<longrightarrow> s < 500 \<Longrightarrow>
     fst (send_callback cfg env e u mid cid) = None"
  by (cases "callback_outcome env")
     (auto simp: send_callback_def Let_def callback_catch_def callback_validateStatus_def
       split: jsval.splits)

lemma send_callback_5xx:
  "callback_outcome env = Responded s d \<Longrightarrow> 500 \<le> s \<Longrightarrow> take 4 u = ''http'' \<Longrightarrow>
     fst (send_callback cfg env e (JStr u) mid cid)
       = Some (ReferenceError ''callbackPayload is not defined'')"
  by (auto simp: send_callback_def Let_def callback_catch_def callback_validateStatus_def
      callbackPayload_data truthy_enrichedData enrichedData_of_def)

lemma webhook_acknowledged:
  assumes "destructure_body (req_body req) = Inr e"
    and "log_record (record_of env st e) = None"
    and "\<forall>s d. callback_outcome env = Responded s d \<longrightarrow> s < 500"
  shows "fst (webhook_modelriver cfg env st req) = webhook_ack (messageId_of env st e)"
proof -
  obtain err out where so: "send_callback cfg env e (callbackUrl_of e (req_headers req))
      (messageId_of env st e) (conversationId_of st e) = (err, out)"
    by (cases "send_callback cfg env e (callbackUrl_of e (req_headers req))
      (messageId_of env st e) (conversationId_of st e)")
  with send_callback_below_500 [OF assms(3), of cfg e "callbackUrl_of e (req_headers req)"
      "messageId_of env st e" "conversationId_of st e"]
  have "err = None" by simp
  with so assms(1,2) show ?thesis by (simp add: webhook_modelriver_def)
qed

lemma webhook_fails_on_callback_5xx:
  assumes "destructure_body (req_body req) = Inr e"
    and "log_record (record_of env st e) = None"
    and "callbackUrl_of e (req_headers req) = JStr u" and "take 4 u = ''http''"
    and "callback_outcome env = Responded s d" and "500 \<le> s"
  shows "fst (webhook_modelriver cfg env st req)
           = webhook_catch (ReferenceError ''callbackPayload is not defined'')"
proof -
  obtain err out where so: "send_callback cfg env e (JStr u)
      (messageId_of env st e) (conversationId_of st e) = (err, out)"
    by (cases "send_callback cfg env e (JStr u) (messageId_of env st e) (conversationId_of st e)")
  with send_callback_5xx [OF assms(5,6,4), of cfg e "messageId_of env st e" "conversationId_of st e"]
  have "err = Some (ReferenceError ''callbackPayload is not defined'')" by simp
  with so assms(1,2,3) show ?thesis by (simp add: webhook_modelriver_def)
qed


text \<open>
  Claim C7. The POST to the callback address has the 30 second timeout, a status
  below 500 is taken as success, and a failure without a response is logged and goes
  no further (\<open>callback_timeout\<close>, \<open>send_callback_below_500\<close>, \<open>webhook_acknowledged\<close>).
  A status of 500 or more does not end there (\<open>webhook_fails_on_callback_5xx\<close>): the
  \<^verbatim>\<open>catch\<close> clause reads \<^verbatim>\<open>callbackPayload\<close>, which is out of scope, and the error reaches
  the outer clause. With the record stored and the pending request removed, the webhook
  below, whose callback address answers 503, is answered 500 and not 200.
\<close>

theorem webhook_fails_when_callback_answers_503:
  "fst (webhook_modelriver ex_config ex_webhook_env_503 ex_waiting ex_webhook_callback)
     = \<lparr>status = 500, body = JObj [(''error'', JStr ''callbackPayload is not defined'')]\<rparr>
   \<and> conversations (fst (snd (webhook_modelriver ex_config ex_webhook_env_503 ex_waiting
                                ex_webhook_callback)))
     = [(JStr ''9d3c1f0a-5b7e-4c2d-8a1f-6e4b2c0d9f31'',
         \<lparr>messages = [\<lparr>r_id = JStr ''1b9d6bcd-bbfd-4b2d-9b5d-ab8dfbbd4bed'',
                        r_prompt = JStr ''Hello test'',
                        r_response = JStr ''Hello from AI'',
                        r_created_at = ''2026-01-10T12:34:56.789Z'',
                        r_channel_id = JStr ''mock-channel-123'',
                        r_conversation_id = JStr ''9d3c1f0a-5b7e-4c2d-8a1f-6e4b2c0d9f31'',
                        r_usage = JUndef\<rparr>],
          createdAt = ''2026-01-10T12:34:56.790Z''\<rparr>)]
   \<and> pendingRequests (fst (snd (webhook_modelriver ex_config ex_webhook_env_503 ex_waiting
                                  ex_webhook_callback))) = []
   \<and> map url (snd (snd (webhook_modelriver ex_config ex_webhook_env_503 ex_waiting
                           ex_webhook_callback)))
     = [''https://api.modelriver.com/v1/callback/mock-channel-123'']
   \<and> map timeout (snd (snd (webhook_modelriver ex_config ex_webhook_env_503 ex_waiting
                               ex_webhook_callback)))
     = [Some 30000]"
  by (simp add: webhook_defs ex_defs)

section \<open>The pending request\<close>

lemma pending_put_then_get:
  "Map_get (Map_set m (JStr c) p) (JStr c) = Some p"
  by (simp add: Map_get_set)

lemma pending_removed_at_store:
  assumes "destructure_body (req_body req) = Inr e" and "log_record (record_of env st e) = None"
  shows "Map_get (pendingRequests (fst (snd (webhook_modelriver cfg env st req)))) (wh_channel_id e)
           = None"
  using webhook_reaches_store [OF assms, of cfg] by (simp add: stored_def Map_get_delete)

text \<open>A structured response value stops the handler at its log statement, before
  anything is stored or removed.\<close>

lemma webhook_fails_on_structured:
  assumes "destructure_body (req_body req) = Inr e"
    and "isArray (aiResponse_of (responseDataToProcess_of e))
         \<or> plain_object (aiResponse_of (responseDataToProcess_of e))"
  shows "status (fst (webhook_modelriver cfg env st req)) = 500
         \<and> snd (webhook_modelriver cfg env st req) = (st, [])"
proof -
  from assms(2) have "\<not> (nullish (r_response (record_of env st e))
      \<or> typeof_string (r_response (record_of env st e)))"
    by (cases "aiResponse_of (responseDataToProcess_of e)") (simp_all add: record_of_def)
  then obtain err where "log_record (record_of env st e) = Some err"
    using log_record_None [of "record_of env st e"] by (cases "log_record (record_of env st e)") auto
  with assms(1) show ?thesis
    by (simp add: webhook_stops_at_log webhook_catch_def)
qed


text \<open>
  Claim C5. \<^verbatim>\<open>POST /chat\<close> puts the pending request under the channel identifier, and
  a webhook that gets as far as storing its record removes it (\<open>pending_put_then_get\<close>,
  \<open>pending_removed_at_store\<close>). The removal comes after the log statement, though: the
  webhook below, with a structured answer, reads the pending request, fails at the log
  statement and leaves the entry in the map, where a second webhook for the channel
  finds it again.
\<close>

theorem pending_request_survives_failed_webhook:
  "fst (snd (chat ex_config ex_chat_env ex_empty ex_chat_request)) = ex_waiting
   \<and> Map_get (pendingRequests ex_waiting) (JStr ''mock-channel-123'') = Some ex_pending
   \<and> webhook_modelriver ex_config ex_webhook_env ex_waiting ex_webhook_structured
     = (\<lparr>status = 500,
         body = JObj [(''error'', JStr ''record.response?.substring is not a function'')]\<rparr>,
        ex_waiting, [])
   \<and> conversations (fst (snd (webhook_modelriver ex_config ex_webhook_env ex_waiting
                                ex_webhook_text)))
     = [(JStr ''9d3c1f0a-5b7e-4c2d-8a1f-6e4b2c0d9f31'',
         \<lparr>messages = [\<lparr>r_id = JStr ''1b9d6bcd-bbfd-4b2d-9b5d-ab8dfbbd4bed'',
                        r_prompt = JStr ''Hello test'',
                        r_response = JStr ''Hello from AI'',
                        r_created_at = ''2026-01-10T12:34:56.789Z'',
                        r_channel_id = JStr ''mock-channel-123'',
                        r_conversation_id = JStr ''9d3c1f0a-5b7e-4c2d-8a1f-6e4b2c0d9f31'',
                        r_usage = JUndef\<rparr>],
          createdAt = ''2026-01-10T12:34:56.790Z''\<rparr>)]"
  by (simp add: webhook_defs ex_defs chat_def chat_payload_def chat_request_def
      default_validateStatus_def Map_set_def api_key_set_def Let_def)

section \<open>The status of the envelope and the acknowledgement\<close>

text \<open>With a response value that is a text or absent, and a callback address that
  does not answer with 500 or more, a webhook is stored and acknowledged with 200,
  whatever its \<^verbatim>\<open>status\<close>.\<close>

lemma webhook_status_acknowledged:
  assumes "destructure_body (JObj kvs) = Inr e"
    and "log_record (record_of env st e) = None"
    and "\<forall>s d. callback_outcome env = Responded s d \<longrightarrow> s < 500"
  shows "webhook_modelriver cfg env st
           \<lparr>req_body = JObj (AList.update ''status'' s kvs), req_headers = hs\<rparr>
         = (webhook_ack (messageId_of env st e), stored env st e,
            snd (send_callback cfg env e (callbackUrl_of e hs) (messageId_of env st e)
                   (conversationId_of st e)))"
proof -
  obtain e' where e': "destructure_body (JObj (AList.update ''status'' s kvs)) = Inr (e'\<lparr>wh_status := s\<rparr>)"
    "destructure_body (JObj kvs) = Inr e'"
    using destructure_body_status by blast
  with assms(1) have "e' = e" by simp
  with e' have d: "destructure_body (JObj (AList.update ''status'' s kvs)) = Inr (e\<lparr>wh_status := s\<rparr>)"
    by simp
  have "fst (send_callback cfg env e (callbackUrl_of e hs) (messageId_of env st e)
                   (conversationId_of st e)) = None"
    using assms(3) by (rule send_callback_below_500)
  then obtain out where "send_callback cfg env e (callbackUrl_of e hs) (messageId_of env st e)
                   (conversationId_of st e) = (None, out)"
    by (cases "send_callback cfg env e (callbackUrl_of e hs) (messageId_of env st e)
                   (conversationId_of st e)") auto
  with d assms(2) show ?thesis
    by (simp add: webhook_modelriver_def status_unused status_unused_callback status_unused_stored)
qed


text \<open>
  Claim C10. The handler never looks at \<^verbatim>\<open>status\<close>, and two envelopes that differ in it
  alone are processed alike (\<open>webhook_ignores_status\<close>); with a text answer both runs store
  the same record and are acknowledged with 200 (\<open>webhook_status_acknowledged\<close>). With a
  structured answer they are alike in failing: for \<^verbatim>\<open>success\<close> and for \<^verbatim>\<open>error\<close> the log
  statement throws, the answer is 500, no record is created and the maps stay as they
  were.
\<close>

theorem structured_webhook_fails_whatever_the_status:
  "webhook_modelriver ex_config ex_webhook_env ex_waiting ex_webhook_structured
     = (\<lparr>status = 500,
         body = JObj [(''error'', JStr ''record.response?.substring is not a function'')]\<rparr>,
        ex_waiting, [])
   \<and> webhook_modelriver ex_config ex_webhook_env ex_waiting ex_webhook_structured_error
     = (\<lparr>status = 500,
         body = JObj [(''error'', JStr ''record.response?.substring is not a function'')]\<rparr>,
        ex_waiting, [])
   \<and> conversations ex_waiting = []"
  by (simp add: webhook_defs ex_defs)

section \<open>The response value\<close>

text \<open>
  The rule of the specification and the code part on an array, which the code passes
  through where the specification has its JSON text, and on an object whose \<^verbatim>\<open>choices\<close>
  field is there and falsy, which the code passes through as well.
\<close>

theorem response_value_differs_from_spec:
  "aiResponse_of ex_array_data = ex_array_data
   \<and> spec_response_value ex_array_data = JStr [CHR ''['', CHR 0x22, CHR ''a'', CHR 0x22, CHR '']'']
   \<and> aiResponse_of ex_null_choices_data = ex_null_choices_data
   \<and> spec_response_value ex_null_choices_data = stringify ex_null_choices_data
   \<and> stringify ex_null_choices_data \<noteq> ex_null_choices_data"
  by (simp add: aiResponse_of_def spec_response_value_def ex_array_data_def
      ex_null_choices_data_def has_field_def jor_def stringify_def quote_def escape_char_def)

lemma truthy_object: "(truthy p \<and> typeof_object p) = (isArray p \<or> plain_object p)"
  by (cases p) simp_all

lemma aiResponse_of_cases:
  "aiResponse_of p =
     (if (isArray p \<or> plain_object p) \<and> \<not> truthy (field p ''choices'')
         \<and> \<not> truthy (field p ''response'')
      then p
      else jor (jor (field (field (index0 (field p ''choices'')) ''message'') ''content'')
                    (field (field (index0 (field (field p ''response'') ''choices''))
                              ''message'') ''content''))
               (stringify p))"
  unfolding aiResponse_of_def truthy_object [symmetric] by (simp add: conj_assoc)

lemma stored_holds_record:
  "\<exists>c. (conversationId_of st e, c) \<in> set (conversations (stored env st e))
       \<and> messages c \<noteq> [] \<and> last (messages c) = record_of env st e"
  by (simp add: stored_def store_record_holds)


text \<open>
  Claim C2, as the code has it. The response value is the payload itself when the
  payload is an object or an array and its \<^verbatim>\<open>choices\<close> and \<^verbatim>\<open>response\<close> are both falsy
  (absent, \<^verbatim>\<open>null\<close>, \<^verbatim>\<open>false\<close>, \<^verbatim>\<open>0\<close> or empty); otherwise it is the first truthy one of
  \<^verbatim>\<open>choices[0].message.content\<close>, \<^verbatim>\<open>response.choices[0].message.content\<close> and the JSON text
  of the payload. Every record the handler stores has that value of the payload
  \<^verbatim>\<open>ai_response.data || data\<close> as its response.
\<close>

theorem response_value_rule:
  "((isArray p \<or> plain_object p) \<and> \<not> truthy (field p ''choices'') \<and> \<not> truthy (field p ''response'')
      \<longrightarrow> aiResponse_of p = p)
   \<and> (\<not> ((isArray p \<or> plain_object p) \<and> \<not> truthy (field p ''choices'')
            \<and> \<not> truthy (field p ''response''))
      \<longrightarrow> aiResponse_of p =
            (if truthy (field (field (index0 (field p ''choices'')) ''message'') ''content'')
             then field (field (index0 (field p ''choices'')) ''message'') ''content''
             else if truthy (field (field (index0 (field (field p ''response'') ''choices''))
                                      ''message'') ''content'')
             then field (field (index0 (field (field p ''response'') ''choices''))
                           ''message'') ''content''
             else stringify p))
   \<and> (destructure_body (req_body req) = Inr e \<and> log_record (record_of env st e) = None
      \<longrightarrow> (\<exists>c. (conversationId_of st e, c)
                  \<in> set (conversations (fst (snd (webhook_modelriver cfg env st req))))
               \<and> messages c \<noteq> []
               \<and> r_response (last (messages c))
                   = aiResponse_of (jor (jor (field (wh_ai_response e) ''data'') (wh_data e))
                                       (wh_data e))))"
proof (intro conjI impI)
  assume "(isArray p \<or> plain_object p) \<and> \<not> truthy (field p ''choices'')
      \<and> \<not> truthy (field p ''response'')"
  then show "aiResponse_of p = p"
    by (simp add: aiResponse_of_cases)
next
  assume "\<not> ((isArray p \<or> plain_object p) \<and> \<not> truthy (field p ''choices'')
            \<and> \<not> truthy (field p ''response''))"
  then show "aiResponse_of p =
            (if truthy (field (field (index0 (field p ''choices'')) ''message'') ''content'')
             then field (field (index0 (field p ''choices'')) ''message'') ''content''
             else if truthy (field (field (index0 (field (field p ''response'') ''choices''))
                                      ''message'') ''content'')
             then field (field (index0 (field (field p ''response'') ''choices''))
                           ''message'') ''content''
             else stringify p)"
    by (auto simp: aiResponse_of_cases jor_def)
next
  assume a: "destructure_body (req_body req) = Inr e \<and> log_record (record_of env st e) = None"
  then have "fst (snd (webhook_modelriver cfg env st req)) = stored env st e"
    by (simp add: webhook_reaches_store)
  moreover obtain c where "(conversationId_of st e, c) \<in> set (conversations (stored env st e))"
    "messages c \<noteq> []" "last (messages c) = record_of env st e"
    using stored_holds_record by blast
  moreover have "r_response (record_of env st e)
      = aiResponse_of (jor (jor (field (wh_ai_response e) ''data'') (wh_data e)) (wh_data e))"
    by (simp add: record_of_def responseDataToProcess_of_def responseData_of_def)
  ultimately show "\<exists>c. (conversationId_of st e, c)
                  \<in> set (conversations (fst (snd (webhook_modelriver cfg env st req))))
               \<and> messages c \<noteq> []
               \<and> r_response (last (messages c))
                   = aiResponse_of (jor (jor (field (wh_ai_response e) ''data'') (wh_data e))
                                       (wh_data e))"
    by auto
qed

theorem response_value_rule_witness:
  "aiResponse_of ex_structured_data = ex_structured_data
   \<and> aiResponse_of ex_array_data = ex_array_data
   \<and> aiResponse_of ex_text_data = JStr ''Hello from AI''
   \<and> (\<exists>c. (JStr ''9d3c1f0a-5b7e-4c2d-8a1f-6e4b2c0d9f31'', c)
             \<in> set (conversations (fst (snd (webhook_modelriver ex_config ex_webhook_env
                                               ex_waiting ex_webhook_text))))
          \<and> messages c \<noteq> [] \<and> r_response (last (messages c)) = JStr ''Hello from AI'')"
proof -
  have s: "(isArray ex_structured_data \<or> plain_object ex_structured_data)
      \<and> \<not> truthy (field ex_structured_data ''choices'')
      \<and> \<not> truthy (field ex_structured_data ''response'')"
    by (simp add: ex_structured_data_def)
  have a: "(isArray ex_array_data \<or> plain_object ex_array_data)
      \<and> \<not> truthy (field ex_array_data ''choices'')
      \<and> \<not> truthy (field ex_array_data ''response'')"
    by (simp add: ex_array_data_def)
  have t: "\<not> ((isArray ex_text_data \<or> plain_object ex_text_data)
      \<and> \<not> truthy (field ex_text_data ''choices'')
      \<and> \<not> truthy (field ex_text_data ''response''))"
    by (simp add: ex_text_data_def)
  have l: "destructure_body (req_body ex_webhook_text) = Inr ex_envelope_text
      \<and> log_record (record_of ex_webhook_env ex_waiting ex_envelope_text) = None"
    by (simp add: ex_webhook_text_envelope) (simp add: webhook_defs ex_defs ex_envelope_text_def)
  have c: "conversationId_of ex_waiting ex_envelope_text = JStr ''9d3c1f0a-5b7e-4c2d-8a1f-6e4b2c0d9f31''"
    by (simp add: webhook_defs ex_defs ex_envelope_text_def)
  have v: "jor (jor (field (wh_ai_response ex_envelope_text) ''data'') (wh_data ex_envelope_text))
               (wh_data ex_envelope_text) = ex_text_data"
    by (simp add: jor_def ex_text_data_def ex_envelope_text_def)
  from s have 1: "aiResponse_of ex_structured_data = ex_structured_data"
    using response_value_rule [of ex_structured_data] by blast
  from a have 2: "aiResponse_of ex_array_data = ex_array_data"
    using response_value_rule [of ex_array_data] by blast
  from t have 3: "aiResponse_of ex_text_data = JStr ''Hello from AI''"
    using response_value_rule [of ex_text_data] by (simp add: ex_text_data_def)
  from l have "\<exists>c. (conversationId_of ex_waiting ex_envelope_text, c)
                  \<in> set (conversations (fst (snd (webhook_modelriver ex_config ex_webhook_env
                                                    ex_waiting ex_webhook_text))))
               \<and> messages c \<noteq> []
               \<and> r_response (last (messages c))
                   = aiResponse_of (jor (jor (field (wh_ai_response ex_envelope_text) ''data'')
                                             (wh_data ex_envelope_text))
                                       (wh_data ex_envelope_text))"
    using response_value_rule [of _ ex_webhook_text ex_envelope_text ex_webhook_env ex_waiting
        ex_config] by blast
  with c v 3 have 4: "\<exists>c. (JStr ''9d3c1f0a-5b7e-4c2d-8a1f-6e4b2c0d9f31'', c)
             \<in> set (conversations (fst (snd (webhook_modelriver ex_config ex_webhook_env
                                               ex_waiting ex_webhook_text))))
          \<and> messages c \<noteq> [] \<and> r_response (last (messages c)) = JStr ''Hello from AI''"
    by simp
  from 1 2 3 4 show ?thesis by blast
qed


section \<open>The identifiers of a record\<close>

text \<open>
  A webhook for a channel without pending request is given a new \<^verbatim>\<open>id\<close>; for the
  conversation identifier there is no such replacement: the record has none, and is
  stored under the key \<^verbatim>\<open>undefined\<close>.
\<close>

theorem orphan_record_has_no_conversation_id:
  "fst (webhook_modelriver ex_config ex_webhook_env ex_empty ex_webhook_text)
     = \<lparr>status = 200,
        body = JObj [(''success'', JBool True), (''message'', JStr ''Webhook processed''),
                     (''record_id'', JStr ''3f2b8c1e-7a4d-4e5f-9b6a-0c1d2e3f4a5b'')]\<rparr>
   \<and> conversations (fst (snd (webhook_modelriver ex_config ex_webhook_env ex_empty
                                ex_webhook_text)))
     = [(JUndef,
         \<lparr>messages = [\<lparr>r_id = JStr ''3f2b8c1e-7a4d-4e5f-9b6a-0c1d2e3f4a5b'',
                        r_prompt = JStr ''Unknown prompt'',
                        r_response = JStr ''Hello from AI'',
                        r_created_at = ''2026-01-10T12:34:56.789Z'',
                        r_channel_id = JStr ''mock-channel-123'',
                        r_conversation_id = JUndef,
                        r_usage = JUndef\<rparr>],
          createdAt = ''2026-01-10T12:34:56.790Z''\<rparr>)]"
  by (simp add: webhook_defs ex_defs)

text \<open>
  Claim C3, as the code has it. The record the handler stores has an \<^verbatim>\<open>id\<close>, which is
  the message identifier of the pending request of its channel, or a new one from
  \<^verbatim>\<open>uuidv4()\<close> when there is no pending request (or one without message identifier);
  its conversation identifier is that of the pending request, and \<^verbatim>\<open>undefined\<close> when
  there is none. Neither comes out of the envelope: envelopes for the same channel get
  the same two identifiers, whatever else they hold.
\<close>

theorem record_identifiers:
  "(destructure_body (req_body req) = Inr e \<and> log_record (record_of env st e) = None \<longrightarrow>
      (\<exists>c. (conversationId_of st e, c)
              \<in> set (conversations (fst (snd (webhook_modelriver cfg env st req))))
           \<and> messages c \<noteq> [] \<and> last (messages c) = record_of env st e))
   \<and> r_id (record_of env st e)
       = (case Map_get (pendingRequests st) (wh_channel_id e) of
            None \<Rightarrow> JStr (uuid env)
          | Some p \<Rightarrow> jor (messageId p) (JStr (uuid env)))
   \<and> r_id (record_of env st e) \<noteq> JUndef
   \<and> r_conversation_id (record_of env st e)
       = (case Map_get (pendingRequests st) (wh_channel_id e) of
            None \<Rightarrow> JUndef
          | Some p \<Rightarrow> conversationId p)
   \<and> (wh_channel_id e' = wh_channel_id e \<longrightarrow>
        r_id (record_of env st e') = r_id (record_of env st e)
        \<and> r_conversation_id (record_of env st e') = r_conversation_id (record_of env st e))"
proof (intro conjI impI)
  assume "destructure_body (req_body req) = Inr e \<and> log_record (record_of env st e) = None"
  then have "fst (snd (webhook_modelriver cfg env st req)) = stored env st e"
    by (simp add: webhook_reaches_store)
  then show "\<exists>c. (conversationId_of st e, c)
              \<in> set (conversations (fst (snd (webhook_modelriver cfg env st req))))
           \<and> messages c \<noteq> [] \<and> last (messages c) = record_of env st e"
    using stored_holds_record [of st e env] by simp
next
  show "r_id (record_of env st e)
       = (case Map_get (pendingRequests st) (wh_channel_id e) of
            None \<Rightarrow> JStr (uuid env)
          | Some p \<Rightarrow> jor (messageId p) (JStr (uuid env)))"
    by (simp add: record_of_def messageId_of_def customMessageId_of_def pendingRequest_of_def
        jor_def split: option.split)
  show "r_id (record_of env st e) \<noteq> JUndef"
    by (simp add: record_of_def messageId_of_def jor_defined)
  show "r_conversation_id (record_of env st e)
       = (case Map_get (pendingRequests st) (wh_channel_id e) of
            None \<Rightarrow> JUndef
          | Some p \<Rightarrow> conversationId p)"
    by (simp add: record_of_def conversationId_of_def pendingRequest_of_def)
next
  assume k: "wh_channel_id e' = wh_channel_id e"
  then show "r_id (record_of env st e') = r_id (record_of env st e)"
    by (simp add: record_of_def messageId_of_def customMessageId_of_def pendingRequest_of_def)
  from k show "r_conversation_id (record_of env st e') = r_conversation_id (record_of env st e)"
    by (simp add: record_of_def conversationId_of_def pendingRequest_of_def)
qed

theorem record_identifiers_witness:
  "(\<exists>c. (JStr ''9d3c1f0a-5b7e-4c2d-8a1f-6e4b2c0d9f31'', c)
           \<in> set (conversations (fst (snd (webhook_modelriver ex_config ex_webhook_env ex_waiting
                                             ex_webhook_text))))
        \<and> messages c \<noteq> []
        \<and> r_id (last (messages c)) = JStr ''1b9d6bcd-bbfd-4b2d-9b5d-ab8dfbbd4bed''
        \<and> r_conversation_id (last (messages c)) = JStr ''9d3c1f0a-5b7e-4c2d-8a1f-6e4b2c0d9f31'')
   \<and> r_id (record_of ex_webhook_env ex_waiting ex_envelope_provider_ids)
       = JStr ''1b9d6bcd-bbfd-4b2d-9b5d-ab8dfbbd4bed''
   \<and> r_conversation_id (record_of ex_webhook_env ex_waiting ex_envelope_provider_ids)
       = JStr ''9d3c1f0a-5b7e-4c2d-8a1f-6e4b2c0d9f31''"
proof -
  note r = record_identifiers [of ex_webhook_text ex_envelope_text ex_webhook_env ex_waiting
      ex_config ex_envelope_provider_ids]
  have l: "destructure_body (req_body ex_webhook_text) = Inr ex_envelope_text
      \<and> log_record (record_of ex_webhook_env ex_waiting ex_envelope_text) = None"
    by (simp add: ex_webhook_text_envelope) (simp add: webhook_defs ex_defs ex_envelope_text_def)
  have k: "wh_channel_id ex_envelope_provider_ids = wh_channel_id ex_envelope_text"
    by (simp add: ex_envelope_provider_ids_def)
  have g: "Map_get (pendingRequests ex_waiting) (wh_channel_id ex_envelope_text) = Some ex_pending"
    by (simp add: ex_waiting_def ex_envelope_text_def)
  have c: "conversationId_of ex_waiting ex_envelope_text = JStr ''9d3c1f0a-5b7e-4c2d-8a1f-6e4b2c0d9f31''"
    by (simp add: webhook_defs ex_defs ex_envelope_text_def)
  from r g have i: "r_id (record_of ex_webhook_env ex_waiting ex_envelope_text)
      = JStr ''1b9d6bcd-bbfd-4b2d-9b5d-ab8dfbbd4bed''"
    by (simp add: ex_pending_def jor_def)
  from r g have j: "r_conversation_id (record_of ex_webhook_env ex_waiting ex_envelope_text)
      = JStr ''9d3c1f0a-5b7e-4c2d-8a1f-6e4b2c0d9f31''"
    by (simp add: ex_pending_def)
  from r l obtain c where "(conversationId_of ex_waiting ex_envelope_text, c)
      \<in> set (conversations (fst (snd (webhook_modelriver ex_config ex_webhook_env ex_waiting
                                        ex_webhook_text))))"
    "messages c \<noteq> []" "last (messages c) = record_of ex_webhook_env ex_waiting ex_envelope_text"
    by blast
  with c i j have 1: "\<exists>c. (JStr ''9d3c1f0a-5b7e-4c2d-8a1f-6e4b2c0d9f31'', c)
           \<in> set (conversations (fst (snd (webhook_modelriver ex_config ex_webhook_env ex_waiting
                                             ex_webhook_text))))
        \<and> messages c \<noteq> []
        \<and> r_id (last (messages c)) = JStr ''1b9d6bcd-bbfd-4b2d-9b5d-ab8dfbbd4bed''
        \<and> r_conversation_id (last (messages c)) = JStr ''9d3c1f0a-5b7e-4c2d-8a1f-6e4b2c0d9f31''"
    by auto
  from r k i j have 2: "r_id (record_of ex_webhook_env ex_waiting ex_envelope_provider_ids)
       = JStr ''1b9d6bcd-bbfd-4b2d-9b5d-ab8dfbbd4bed''
   \<and> r_conversation_id (record_of ex_webhook_env ex_waiting ex_envelope_provider_ids)
       = JStr ''9d3c1f0a-5b7e-4c2d-8a1f-6e4b2c0d9f31''"
    by simp
  from 1 2 show ?thesis by blast
qed


section \<open>A webhook for an unknown channel\<close>

text \<open>
  Without pending request a webhook is not acknowledged when its answer is
  structured, nor when the callback address answers 503; and when it is acknowledged,
  the record has no conversation identifier.
\<close>

theorem unknown_channel_not_always_acknowledged:
  "webhook_modelriver ex_config ex_webhook_env ex_empty ex_webhook_structured
     = (\<lparr>status = 500,
         body = JObj [(''error'', JStr ''record.response?.substring is not a function'')]\<rparr>,
        ex_empty, [])
   \<and> fst (webhook_modelriver ex_config ex_webhook_env_503 ex_empty ex_webhook_callback)
     = \<lparr>status = 500, body = JObj [(''error'', JStr ''callbackPayload is not defined'')]\<rparr>
   \<and> fst (webhook_modelriver ex_config ex_webhook_env ex_empty ex_webhook_callback)
     = \<lparr>status = 200,
        body = JObj [(''success'', JBool True), (''message'', JStr ''Webhook processed''),
                     (''record_id'', JStr ''3f2b8c1e-7a4d-4e5f-9b6a-0c1d2e3f4a5b'')]\<rparr>
   \<and> conversations (fst (snd (webhook_modelriver ex_config ex_webhook_env ex_empty
                                ex_webhook_callback)))
     = [(JUndef,
         \<lparr>messages = [\<lparr>r_id = JStr ''3f2b8c1e-7a4d-4e5f-9b6a-0c1d2e3f4a5b'',
                        r_prompt = JStr ''Unknown prompt'',
                        r_response = JStr ''Hello from AI'',
                        r_created_at = ''2026-01-10T12:34:56.789Z'',
                        r_channel_id = JStr ''mock-channel-123'',
                        r_conversation_id = JUndef,
                        r_usage = JUndef\<rparr>],
          createdAt = ''2026-01-10T12:34:56.790Z''\<rparr>)]"
  by (simp add: webhook_defs ex_defs)

text \<open>
  Claim C4, as the code has it. A webhook whose channel has no pending request, whose
  response value is a text or absent, and whose callback address does not answer with
  a status of 500 or more, is acknowledged with 200, the success flag and the new
  record identifier; the record has that identifier, no conversation identifier and the
  prompt \<^verbatim>\<open>Unknown prompt\<close>, and is stored in the conversation under the key
  \<^verbatim>\<open>undefined\<close>.
\<close>

theorem unknown_channel_degrades:
  assumes "destructure_body (req_body req) = Inr e"
    and "Map_get (pendingRequests st) (wh_channel_id e) = None"
    and "nullish (aiResponse_of (responseDataToProcess_of e))
         \<or> typeof_string (aiResponse_of (responseDataToProcess_of e))"
    and "\<forall>s d. callback_outcome env = Responded s d \<longrightarrow> s < 500"
  shows "fst (webhook_modelriver cfg env st req)
           = \<lparr>status = 200,
              body = JObj [(''success'', JBool True), (''message'', JStr ''Webhook processed''),
                           (''record_id'', JStr (uuid env))]\<rparr>
         \<and> (\<exists>c. (JUndef, c) \<in> set (conversations (fst (snd (webhook_modelriver cfg env st req))))
               \<and> messages c \<noteq> []
               \<and> last (messages c)
                   = \<lparr>r_id = JStr (uuid env),
                      r_prompt = JStr ''Unknown prompt'',
                      r_response = aiResponse_of (responseDataToProcess_of e),
                      r_created_at = created_at_now env,
                      r_channel_id = wh_channel_id e,
                      r_conversation_id = JUndef,
                      r_usage = jor (field (wh_meta e) ''usage'') (field (wh_data e) ''usage'')\<rparr>)"
proof -
  from assms(2) have r: "record_of env st e
      = \<lparr>r_id = JStr (uuid env),
         r_prompt = JStr ''Unknown prompt'',
         r_response = aiResponse_of (responseDataToProcess_of e),
         r_created_at = created_at_now env,
         r_channel_id = wh_channel_id e,
         r_conversation_id = JUndef,
         r_usage = jor (field (wh_meta e) ''usage'') (field (wh_data e) ''usage'')\<rparr>"
    by (simp add: record_of_def messageId_of_def customMessageId_of_def prompt_of_def
        conversationId_of_def pendingRequest_of_def jor_def)
  from assms(2) have m: "messageId_of env st e = JStr (uuid env)"
    by (simp add: messageId_of_def customMessageId_of_def pendingRequest_of_def jor_def)
  from assms(2) have c: "conversationId_of st e = JUndef"
    by (simp add: conversationId_of_def pendingRequest_of_def)
  from assms(3) r have l: "log_record (record_of env st e) = None"
    by (simp add: log_record_None)
  from webhook_acknowledged [OF assms(1) l assms(4), of cfg] m
  have 1: "fst (webhook_modelriver cfg env st req)
           = \<lparr>status = 200,
              body = JObj [(''success'', JBool True), (''message'', JStr ''Webhook processed''),
                           (''record_id'', JStr (uuid env))]\<rparr>"
    by (simp add: webhook_ack_def)
  have "fst (snd (webhook_modelriver cfg env st req)) = stored env st e"
    using assms(1) l by (rule webhook_reaches_store)
  with stored_holds_record [of st e env] c r
  have 2: "\<exists>c. (JUndef, c) \<in> set (conversations (fst (snd (webhook_modelriver cfg env st req))))
               \<and> messages c \<noteq> []
               \<and> last (messages c)
                   = \<lparr>r_id = JStr (uuid env),
                      r_prompt = JStr ''Unknown prompt'',
                      r_response = aiResponse_of (responseDataToProcess_of e),
                      r_created_at = created_at_now env,
                      r_channel_id = wh_channel_id e,
                      r_conversation_id = JUndef,
                      r_usage = jor (field (wh_meta e) ''usage'') (field (wh_data e) ''usage'')\<rparr>"
    by simp
  from 1 2 show ?thesis by blast
qed


theorem unknown_channel_degrades_witness:
  "fst (webhook_modelriver ex_config ex_webhook_env ex_empty ex_webhook_text)
           = \<lparr>status = 200,
              body = JObj [(''success'', JBool True), (''message'', JStr ''Webhook processed''),
                           (''record_id'', JStr ''3f2b8c1e-7a4d-4e5f-9b6a-0c1d2e3f4a5b'')]\<rparr>
   \<and> (\<exists>c. (JUndef, c) \<in> set (conversations (fst (snd (webhook_modelriver ex_config
                                   ex_webhook_env ex_empty ex_webhook_text))))
         \<and> messages c \<noteq> []
         \<and> last (messages c)
             = \<lparr>r_id = JStr ''3f2b8c1e-7a4d-4e5f-9b6a-0c1d2e3f4a5b'',
                r_prompt = JStr ''Unknown prompt'',
                r_response = JStr ''Hello from AI'',
                r_created_at = ''2026-01-10T12:34:56.789Z'',
                r_channel_id = JStr ''mock-channel-123'',
                r_conversation_id = JUndef,
                r_usage = JUndef\<rparr>)"
proof -
  have g: "Map_get (pendingRequests ex_empty) (wh_channel_id ex_envelope_text) = None"
    by (simp add: ex_empty_def)
  have v: "aiResponse_of (responseDataToProcess_of ex_envelope_text) = JStr ''Hello from AI''"
    by (simp add: webhook_defs ex_defs ex_envelope_text_def)
  then have t: "nullish (aiResponse_of (responseDataToProcess_of ex_envelope_text))
      \<or> typeof_string (aiResponse_of (responseDataToProcess_of ex_envelope_text))"
    by simp
  have o: "\<forall>s d. callback_outcome ex_webhook_env = Responded s d \<longrightarrow> s < 500"
    by (simp add: ex_webhook_env_def)
  have u: "uuid ex_webhook_env = ''3f2b8c1e-7a4d-4e5f-9b6a-0c1d2e3f4a5b''"
    "created_at_now ex_webhook_env = ''2026-01-10T12:34:56.789Z''"
    "wh_channel_id ex_envelope_text = JStr ''mock-channel-123''"
    "jor (field (wh_meta ex_envelope_text) ''usage'') (field (wh_data ex_envelope_text) ''usage'')
       = JUndef"
    by (simp_all add: ex_webhook_env_def ex_envelope_text_def ex_text_data_def jor_def)
  from unknown_channel_degrades [OF ex_webhook_text_envelope g t o, of ex_config]
  show ?thesis
    by (simp only: u v)
qed

end
